theory Spec2Isabelle
  imports Complex_Main
begin

section \<open>Python strings\<close>

text \<open>
  A Python \<open>str\<close> is a sequence of Unicode code points. The strings the program takes
  apart character by character, institution names and display names, which it splits at
  whitespace, strips and lower-cases, are modelled as lists of code points: the type
  \<open>str\<close>. The strings it only compares, concatenates, searches and cuts at ASCII
  characters (URLs, identifiers, keywords, titles, header values) are modelled as HOL
  strings, whose characters are the code points below 256; \<open>str_of\<close> reads such a
  string as a \<open>str\<close>. The functions below are the \<open>str\<close> methods and builtins that
  \<open>openalex_core.py\<close> calls, with Python's names (suffixed where HOL has the name
  already). The tables of whitespace and of letter case are those of Unicode 14.0.0,
  the version of CPython 3.11.
\<close>

type_synonym codepoint = nat

type_synonym str = "codepoint list"

definition str_of :: "string \<Rightarrow> str" where
  "str_of s = map of_char s"

subsection \<open>Whitespace\<close>

text \<open>\<open>c.isspace()\<close>: the characters at which \<open>split()\<close> cuts and which \<open>strip()\<close>
  drops.\<close>

definition isspace :: "codepoint \<Rightarrow> bool" where
  "isspace c =
     (c \<in> set [0x09, 0x0A, 0x0B, 0x0C, 0x0D, 0x1C, 0x1D, 0x1E, 0x1F, 0x20, 0x85, 0xA0,
               0x1680, 0x2000, 0x2001, 0x2002, 0x2003, 0x2004, 0x2005, 0x2006, 0x2007,
               0x2008, 0x2009, 0x200A, 0x2028, 0x2029, 0x202F, 0x205F, 0x3000])"

definition strip :: "str \<Rightarrow> str" where
  "strip s = rev (dropWhile isspace (rev (dropWhile isspace s)))"

text \<open>\<open>s.split()\<close>: the maximal runs of non-whitespace characters of \<open>s\<close>, in order.
  The first argument is the run being read, reversed.\<close>

fun split_from :: "str \<Rightarrow> str \<Rightarrow> str list" where
  "split_from cur [] = (if cur = [] then [] else [rev cur])"
| "split_from cur (c # cs) =
     (if isspace c then (if cur = [] then split_from [] cs else rev cur # split_from [] cs)
      else split_from (c # cur) cs)"

definition split :: "str \<Rightarrow> str list" where
  "split s = split_from [] s"

text \<open>\<open>s.split(sep)\<close> for a one-character separator: never the empty list.\<close>

fun split_on :: "'a \<Rightarrow> 'a list \<Rightarrow> 'a list list" where
  "split_on sep [] = [[]]"
| "split_on sep (c # cs) =
     (if c = sep then [] # split_on sep cs
      else (case split_on sep cs of [] \<Rightarrow> [[c]] | t # ts \<Rightarrow> (c # t) # ts))"

subsection \<open>Letter case\<close>

text \<open>
  \<open>s.lower()\<close> maps every character to its lower-case form, which for one character,
  U+0130, is two characters long. The table lists the characters that change, in runs
  \<open>(lo, hi, step, target)\<close> in increasing order: the characters \<open>lo\<close>, \<open>lo + step\<close>,
  ... up to \<open>hi\<close> map to \<open>target\<close> plus their distance from \<open>lo\<close>.
\<close>

definition lower_runs :: "(codepoint \<times> codepoint \<times> nat \<times> codepoint) list" where
  "lower_runs =
     [(0x41, 0x5A, 1, 0x61), (0xC0, 0xD6, 1, 0xE0), (0xD8, 0xDE, 1, 0xF8), (0x100, 0x12E, 2, 0x101),
      (0x132, 0x136, 2, 0x133), (0x139, 0x147, 2, 0x13A), (0x14A, 0x176, 2, 0x14B), (0x178, 0x178, 1, 0xFF),
      (0x179, 0x17D, 2, 0x17A), (0x181, 0x181, 1, 0x253), (0x182, 0x184, 2, 0x183), (0x186, 0x186, 1, 0x254),
      (0x187, 0x187, 1, 0x188), (0x189, 0x18A, 1, 0x256), (0x18B, 0x18B, 1, 0x18C), (0x18E, 0x18E, 1, 0x1DD),
      (0x18F, 0x18F, 1, 0x259), (0x190, 0x190, 1, 0x25B), (0x191, 0x191, 1, 0x192), (0x193, 0x193, 1, 0x260),
      (0x194, 0x194, 1, 0x263), (0x196, 0x196, 1, 0x269), (0x197, 0x197, 1, 0x268), (0x198, 0x198, 1, 0x199),
      (0x19C, 0x19C, 1, 0x26F), (0x19D, 0x19D, 1, 0x272), (0x19F, 0x19F, 1, 0x275), (0x1A0, 0x1A4, 2, 0x1A1),
      (0x1A6, 0x1A6, 1, 0x280), (0x1A7, 0x1A7, 1, 0x1A8), (0x1A9, 0x1A9, 1, 0x283), (0x1AC, 0x1AC, 1, 0x1AD),
      (0x1AE, 0x1AE, 1, 0x288), (0x1AF, 0x1AF, 1, 0x1B0), (0x1B1, 0x1B2, 1, 0x28A), (0x1B3, 0x1B5, 2, 0x1B4),
      (0x1B7, 0x1B7, 1, 0x292), (0x1B8, 0x1B8, 1, 0x1B9), (0x1BC, 0x1BC, 1, 0x1BD), (0x1C4, 0x1C4, 1, 0x1C6),
      (0x1C5, 0x1C5, 1, 0x1C6), (0x1C7, 0x1C7, 1, 0x1C9), (0x1C8, 0x1C8, 1, 0x1C9), (0x1CA, 0x1CA, 1, 0x1CC),
      (0x1CB, 0x1DB, 2, 0x1CC), (0x1DE, 0x1EE, 2, 0x1DF), (0x1F1, 0x1F1, 1, 0x1F3), (0x1F2, 0x1F4, 2, 0x1F3),
      (0x1F6, 0x1F6, 1, 0x195), (0x1F7, 0x1F7, 1, 0x1BF), (0x1F8, 0x21E, 2, 0x1F9), (0x220, 0x220, 1, 0x19E),
      (0x222, 0x232, 2, 0x223), (0x23A, 0x23A, 1, 0x2C65), (0x23B, 0x23B, 1, 0x23C), (0x23D, 0x23D, 1, 0x19A),
      (0x23E, 0x23E, 1, 0x2C66), (0x241, 0x241, 1, 0x242), (0x243, 0x243, 1, 0x180), (0x244, 0x244, 1, 0x289),
      (0x245, 0x245, 1, 0x28C), (0x246, 0x24E, 2, 0x247), (0x370, 0x372, 2, 0x371), (0x376, 0x376, 1, 0x377),
      (0x37F, 0x37F, 1, 0x3F3), (0x386, 0x386, 1, 0x3AC), (0x388, 0x38A, 1, 0x3AD), (0x38C, 0x38C, 1, 0x3CC),
      (0x38E, 0x38F, 1, 0x3CD), (0x391, 0x3A1, 1, 0x3B1), (0x3A4, 0x3AB, 1, 0x3C4), (0x3CF, 0x3CF, 1, 0x3D7),
      (0x3D8, 0x3EE, 2, 0x3D9), (0x3F4, 0x3F4, 1, 0x3B8), (0x3F7, 0x3F7, 1, 0x3F8), (0x3F9, 0x3F9, 1, 0x3F2),
      (0x3FA, 0x3FA, 1, 0x3FB), (0x3FD, 0x3FF, 1, 0x37B), (0x400, 0x40F, 1, 0x450), (0x410, 0x42F, 1, 0x430),
      (0x460, 0x480, 2, 0x461), (0x48A, 0x4BE, 2, 0x48B), (0x4C0, 0x4C0, 1, 0x4CF), (0x4C1, 0x4CD, 2, 0x4C2),
      (0x4D0, 0x52E, 2, 0x4D1), (0x531, 0x556, 1, 0x561), (0x10A0, 0x10C5, 1, 0x2D00), (0x10C7, 0x10C7, 1, 0x2D27),
      (0x10CD, 0x10CD, 1, 0x2D2D), (0x13A0, 0x13EF, 1, 0xAB70), (0x13F0, 0x13F5, 1, 0x13F8), (0x1C90, 0x1CBA, 1, 0x10D0),
      (0x1CBD, 0x1CBF, 1, 0x10FD), (0x1E00, 0x1E94, 2, 0x1E01), (0x1E9E, 0x1E9E, 1, 0xDF), (0x1EA0, 0x1EFE, 2, 0x1EA1),
      (0x1F08, 0x1F0F, 1, 0x1F00), (0x1F18, 0x1F1D, 1, 0x1F10), (0x1F28, 0x1F2F, 1, 0x1F20), (0x1F38, 0x1F3F, 1, 0x1F30),
      (0x1F48, 0x1F4D, 1, 0x1F40), (0x1F59, 0x1F5F, 2, 0x1F51), (0x1F68, 0x1F6F, 1, 0x1F60), (0x1F88, 0x1F8F, 1, 0x1F80),
      (0x1F98, 0x1F9F, 1, 0x1F90), (0x1FA8, 0x1FAF, 1, 0x1FA0), (0x1FB8, 0x1FB9, 1, 0x1FB0), (0x1FBA, 0x1FBB, 1, 0x1F70),
      (0x1FBC, 0x1FBC, 1, 0x1FB3), (0x1FC8, 0x1FCB, 1, 0x1F72), (0x1FCC, 0x1FCC, 1, 0x1FC3), (0x1FD8, 0x1FD9, 1, 0x1FD0),
      (0x1FDA, 0x1FDB, 1, 0x1F76), (0x1FE8, 0x1FE9, 1, 0x1FE0), (0x1FEA, 0x1FEB, 1, 0x1F7A), (0x1FEC, 0x1FEC, 1, 0x1FE5),
      (0x1FF8, 0x1FF9, 1, 0x1F78), (0x1FFA, 0x1FFB, 1, 0x1F7C), (0x1FFC, 0x1FFC, 1, 0x1FF3), (0x2126, 0x2126, 1, 0x3C9),
      (0x212A, 0x212A, 1, 0x6B), (0x212B, 0x212B, 1, 0xE5), (0x2132, 0x2132, 1, 0x214E), (0x2160, 0x216F, 1, 0x2170),
      (0x2183, 0x2183, 1, 0x2184), (0x24B6, 0x24CF, 1, 0x24D0), (0x2C00, 0x2C2F, 1, 0x2C30), (0x2C60, 0x2C60, 1, 0x2C61),
      (0x2C62, 0x2C62, 1, 0x26B), (0x2C63, 0x2C63, 1, 0x1D7D), (0x2C64, 0x2C64, 1, 0x27D), (0x2C67, 0x2C6B, 2, 0x2C68),
      (0x2C6D, 0x2C6D, 1, 0x251), (0x2C6E, 0x2C6E, 1, 0x271), (0x2C6F, 0x2C6F, 1, 0x250), (0x2C70, 0x2C70, 1, 0x252),
      (0x2C72, 0x2C72, 1, 0x2C73), (0x2C75, 0x2C75, 1, 0x2C76), (0x2C7E, 0x2C7F, 1, 0x23F), (0x2C80, 0x2CE2, 2, 0x2C81),
      (0x2CEB, 0x2CED, 2, 0x2CEC), (0x2CF2, 0x2CF2, 1, 0x2CF3), (0xA640, 0xA66C, 2, 0xA641), (0xA680, 0xA69A, 2, 0xA681),
      (0xA722, 0xA72E, 2, 0xA723), (0xA732, 0xA76E, 2, 0xA733), (0xA779, 0xA77B, 2, 0xA77A), (0xA77D, 0xA77D, 1, 0x1D79),
      (0xA77E, 0xA786, 2, 0xA77F), (0xA78B, 0xA78B, 1, 0xA78C), (0xA78D, 0xA78D, 1, 0x265), (0xA790, 0xA792, 2, 0xA791),
      (0xA796, 0xA7A8, 2, 0xA797), (0xA7AA, 0xA7AA, 1, 0x266), (0xA7AB, 0xA7AB, 1, 0x25C), (0xA7AC, 0xA7AC, 1, 0x261),
      (0xA7AD, 0xA7AD, 1, 0x26C), (0xA7AE, 0xA7AE, 1, 0x26A), (0xA7B0, 0xA7B0, 1, 0x29E), (0xA7B1, 0xA7B1, 1, 0x287),
      (0xA7B2, 0xA7B2, 1, 0x29D), (0xA7B3, 0xA7B3, 1, 0xAB53), (0xA7B4, 0xA7C2, 2, 0xA7B5), (0xA7C4, 0xA7C4, 1, 0xA794),
      (0xA7C5, 0xA7C5, 1, 0x282), (0xA7C6, 0xA7C6, 1, 0x1D8E), (0xA7C7, 0xA7C9, 2, 0xA7C8), (0xA7D0, 0xA7D0, 1, 0xA7D1),
      (0xA7D6, 0xA7D8, 2, 0xA7D7), (0xA7F5, 0xA7F5, 1, 0xA7F6), (0xFF21, 0xFF3A, 1, 0xFF41), (0x10400, 0x10427, 1, 0x10428),
      (0x104B0, 0x104D3, 1, 0x104D8), (0x10570, 0x1057A, 1, 0x10597), (0x1057C, 0x1058A, 1, 0x105A3), (0x1058C, 0x10592, 1, 0x105B3),
      (0x10594, 0x10595, 1, 0x105BB), (0x10C80, 0x10CB2, 1, 0x10CC0), (0x118A0, 0x118BF, 1, 0x118C0), (0x16E40, 0x16E5F, 1, 0x16E60),
      (0x1E900, 0x1E921, 1, 0x1E922)]"

fun lower_in ::
  "codepoint \<Rightarrow> (codepoint \<times> codepoint \<times> nat \<times> codepoint) list \<Rightarrow> codepoint option" where
  "lower_in c [] = None"
| "lower_in c ((lo, hi, step, target) # runs) =
     (if c < lo then None
      else if c \<le> hi then (if (c - lo) mod step = 0 then Some (target + (c - lo)) else None)
      else lower_in c runs)"

definition lower_char :: "codepoint \<Rightarrow> str" where
  "lower_char c =
     (if c = 0x130 then [0x69, 0x307]
      else (case lower_in c lower_runs of None \<Rightarrow> [c] | Some l \<Rightarrow> [l]))"

text \<open>
  The capital sigma U+03A3 is the one character whose lower-case form depends on its
  neighbours: it becomes the final sigma U+03C2 when a cased character comes before it,
  case-ignorable characters apart, and none comes after it, case-ignorable characters
  apart; otherwise it becomes U+03C3. Both tables are lists of ranges \<open>(lo, hi)\<close> in
  increasing order; \<open>cased_ranges\<close> lists the cased characters that are not
  case-ignorable, the only ones the test is made on.
\<close>

definition cased_ranges :: "(codepoint \<times> codepoint) list" where
  "cased_ranges =
     [(0x41, 0x5A), (0x61, 0x7A), (0xAA, 0xAA), (0xB5, 0xB5), (0xBA, 0xBA), (0xC0, 0xD6),
      (0xD8, 0xF6), (0xF8, 0x1BA), (0x1BC, 0x1BF), (0x1C4, 0x293), (0x295, 0x2AF), (0x370, 0x373),
      (0x376, 0x377), (0x37B, 0x37D), (0x37F, 0x37F), (0x386, 0x386), (0x388, 0x38A), (0x38C, 0x38C),
      (0x38E, 0x3A1), (0x3A3, 0x3F5), (0x3F7, 0x481), (0x48A, 0x52F), (0x531, 0x556), (0x560, 0x588),
      (0x10A0, 0x10C5), (0x10C7, 0x10C7), (0x10CD, 0x10CD), (0x10D0, 0x10FA), (0x10FD, 0x10FF), (0x13A0, 0x13F5),
      (0x13F8, 0x13FD), (0x1C80, 0x1C88), (0x1C90, 0x1CBA), (0x1CBD, 0x1CBF), (0x1D00, 0x1D2B), (0x1D6B, 0x1D77),
      (0x1D79, 0x1D9A), (0x1E00, 0x1F15), (0x1F18, 0x1F1D), (0x1F20, 0x1F45), (0x1F48, 0x1F4D), (0x1F50, 0x1F57),
      (0x1F59, 0x1F59), (0x1F5B, 0x1F5B), (0x1F5D, 0x1F5D), (0x1F5F, 0x1F7D), (0x1F80, 0x1FB4), (0x1FB6, 0x1FBC),
      (0x1FBE, 0x1FBE), (0x1FC2, 0x1FC4), (0x1FC6, 0x1FCC), (0x1FD0, 0x1FD3), (0x1FD6, 0x1FDB), (0x1FE0, 0x1FEC),
      (0x1FF2, 0x1FF4), (0x1FF6, 0x1FFC), (0x2102, 0x2102), (0x2107, 0x2107), (0x210A, 0x2113), (0x2115, 0x2115),
      (0x2119, 0x211D), (0x2124, 0x2124), (0x2126, 0x2126), (0x2128, 0x2128), (0x212A, 0x212D), (0x212F, 0x2134),
      (0x2139, 0x2139), (0x213C, 0x213F), (0x2145, 0x2149), (0x214E, 0x214E), (0x2160, 0x217F), (0x2183, 0x2184),
      (0x24B6, 0x24E9), (0x2C00, 0x2C7B), (0x2C7E, 0x2CE4), (0x2CEB, 0x2CEE), (0x2CF2, 0x2CF3), (0x2D00, 0x2D25),
      (0x2D27, 0x2D27), (0x2D2D, 0x2D2D), (0xA640, 0xA66D), (0xA680, 0xA69B), (0xA722, 0xA76F), (0xA771, 0xA787),
      (0xA78B, 0xA78E), (0xA790, 0xA7CA), (0xA7D0, 0xA7D1), (0xA7D3, 0xA7D3), (0xA7D5, 0xA7D9), (0xA7F5, 0xA7F6),
      (0xA7FA, 0xA7FA), (0xAB30, 0xAB5A), (0xAB60, 0xAB68), (0xAB70, 0xABBF), (0xFB00, 0xFB06), (0xFB13, 0xFB17),
      (0xFF21, 0xFF3A), (0xFF41, 0xFF5A), (0x10400, 0x1044F), (0x104B0, 0x104D3), (0x104D8, 0x104FB), (0x10570, 0x1057A),
      (0x1057C, 0x1058A), (0x1058C, 0x10592), (0x10594, 0x10595), (0x10597, 0x105A1), (0x105A3, 0x105B1), (0x105B3, 0x105B9),
      (0x105BB, 0x105BC), (0x10C80, 0x10CB2), (0x10CC0, 0x10CF2), (0x118A0, 0x118DF), (0x16E40, 0x16E7F), (0x1D400, 0x1D454),
      (0x1D456, 0x1D49C), (0x1D49E, 0x1D49F), (0x1D4A2, 0x1D4A2), (0x1D4A5, 0x1D4A6), (0x1D4A9, 0x1D4AC), (0x1D4AE, 0x1D4B9),
      (0x1D4BB, 0x1D4BB), (0x1D4BD, 0x1D4C3), (0x1D4C5, 0x1D505), (0x1D507, 0x1D50A), (0x1D50D, 0x1D514), (0x1D516, 0x1D51C),
      (0x1D51E, 0x1D539), (0x1D53B, 0x1D53E), (0x1D540, 0x1D544), (0x1D546, 0x1D546), (0x1D54A, 0x1D550), (0x1D552, 0x1D6A5),
      (0x1D6A8, 0x1D6C0), (0x1D6C2, 0x1D6DA), (0x1D6DC, 0x1D6FA), (0x1D6FC, 0x1D714), (0x1D716, 0x1D734), (0x1D736, 0x1D74E),
      (0x1D750, 0x1D76E), (0x1D770, 0x1D788), (0x1D78A, 0x1D7A8), (0x1D7AA, 0x1D7C2), (0x1D7C4, 0x1D7CB), (0x1DF00, 0x1DF09),
      (0x1DF0B, 0x1DF1E), (0x1E900, 0x1E943), (0x1F130, 0x1F149), (0x1F150, 0x1F169), (0x1F170, 0x1F189)]"

definition case_ignorable_ranges :: "(codepoint \<times> codepoint) list" where
  "case_ignorable_ranges =
     [(0x27, 0x27), (0x2E, 0x2E), (0x3A, 0x3A), (0x5E, 0x5E), (0x60, 0x60), (0xA8, 0xA8),
      (0xAD, 0xAD), (0xAF, 0xAF), (0xB4, 0xB4), (0xB7, 0xB8), (0x2B0, 0x36F), (0x374, 0x375),
      (0x37A, 0x37A), (0x384, 0x385), (0x387, 0x387), (0x483, 0x489), (0x559, 0x559), (0x55F, 0x55F),
      (0x591, 0x5BD), (0x5BF, 0x5BF), (0x5C1, 0x5C2), (0x5C4, 0x5C5), (0x5C7, 0x5C7), (0x5F4, 0x5F4),
      (0x600, 0x605), (0x610, 0x61A), (0x61C, 0x61C), (0x640, 0x640), (0x64B, 0x65F), (0x670, 0x670),
      (0x6D6, 0x6DD), (0x6DF, 0x6E8), (0x6EA, 0x6ED), (0x70F, 0x70F), (0x711, 0x711), (0x730, 0x74A),
      (0x7A6, 0x7B0), (0x7EB, 0x7F5), (0x7FA, 0x7FA), (0x7FD, 0x7FD), (0x816, 0x82D), (0x859, 0x85B),
      (0x888, 0x888), (0x890, 0x891), (0x898, 0x89F), (0x8C9, 0x902), (0x93A, 0x93A), (0x93C, 0x93C),
      (0x941, 0x948), (0x94D, 0x94D), (0x951, 0x957), (0x962, 0x963), (0x971, 0x971), (0x981, 0x981),
      (0x9BC, 0x9BC), (0x9C1, 0x9C4), (0x9CD, 0x9CD), (0x9E2, 0x9E3), (0x9FE, 0x9FE), (0xA01, 0xA02),
      (0xA3C, 0xA3C), (0xA41, 0xA42), (0xA47, 0xA48), (0xA4B, 0xA4D), (0xA51, 0xA51), (0xA70, 0xA71),
      (0xA75, 0xA75), (0xA81, 0xA82), (0xABC, 0xABC), (0xAC1, 0xAC5), (0xAC7, 0xAC8), (0xACD, 0xACD),
      (0xAE2, 0xAE3), (0xAFA, 0xAFF), (0xB01, 0xB01), (0xB3C, 0xB3C), (0xB3F, 0xB3F), (0xB41, 0xB44),
      (0xB4D, 0xB4D), (0xB55, 0xB56), (0xB62, 0xB63), (0xB82, 0xB82), (0xBC0, 0xBC0), (0xBCD, 0xBCD),
      (0xC00, 0xC00), (0xC04, 0xC04), (0xC3C, 0xC3C), (0xC3E, 0xC40), (0xC46, 0xC48), (0xC4A, 0xC4D),
      (0xC55, 0xC56), (0xC62, 0xC63), (0xC81, 0xC81), (0xCBC, 0xCBC), (0xCBF, 0xCBF), (0xCC6, 0xCC6),
      (0xCCC, 0xCCD), (0xCE2, 0xCE3), (0xD00, 0xD01), (0xD3B, 0xD3C), (0xD41, 0xD44), (0xD4D, 0xD4D),
      (0xD62, 0xD63), (0xD81, 0xD81), (0xDCA, 0xDCA), (0xDD2, 0xDD4), (0xDD6, 0xDD6), (0xE31, 0xE31),
      (0xE34, 0xE3A), (0xE46, 0xE4E), (0xEB1, 0xEB1), (0xEB4, 0xEBC), (0xEC6, 0xEC6), (0xEC8, 0xECD),
      (0xF18, 0xF19), (0xF35, 0xF35), (0xF37, 0xF37), (0xF39, 0xF39), (0xF71, 0xF7E), (0xF80, 0xF84),
      (0xF86, 0xF87), (0xF8D, 0xF97), (0xF99, 0xFBC), (0xFC6, 0xFC6), (0x102D, 0x1030), (0x1032, 0x1037),
      (0x1039, 0x103A), (0x103D, 0x103E), (0x1058, 0x1059), (0x105E, 0x1060), (0x1071, 0x1074), (0x1082, 0x1082),
      (0x1085, 0x1086), (0x108D, 0x108D), (0x109D, 0x109D), (0x10FC, 0x10FC), (0x135D, 0x135F), (0x1712, 0x1714),
      (0x1732, 0x1733), (0x1752, 0x1753), (0x1772, 0x1773), (0x17B4, 0x17B5), (0x17B7, 0x17BD), (0x17C6, 0x17C6),
      (0x17C9, 0x17D3), (0x17D7, 0x17D7), (0x17DD, 0x17DD), (0x180B, 0x180F), (0x1843, 0x1843), (0x1885, 0x1886),
      (0x18A9, 0x18A9), (0x1920, 0x1922), (0x1927, 0x1928), (0x1932, 0x1932), (0x1939, 0x193B), (0x1A17, 0x1A18),
      (0x1A1B, 0x1A1B), (0x1A56, 0x1A56), (0x1A58, 0x1A5E), (0x1A60, 0x1A60), (0x1A62, 0x1A62), (0x1A65, 0x1A6C),
      (0x1A73, 0x1A7C), (0x1A7F, 0x1A7F), (0x1AA7, 0x1AA7), (0x1AB0, 0x1ACE), (0x1B00, 0x1B03), (0x1B34, 0x1B34),
      (0x1B36, 0x1B3A), (0x1B3C, 0x1B3C), (0x1B42, 0x1B42), (0x1B6B, 0x1B73), (0x1B80, 0x1B81), (0x1BA2, 0x1BA5),
      (0x1BA8, 0x1BA9), (0x1BAB, 0x1BAD), (0x1BE6, 0x1BE6), (0x1BE8, 0x1BE9), (0x1BED, 0x1BED), (0x1BEF, 0x1BF1),
      (0x1C2C, 0x1C33), (0x1C36, 0x1C37), (0x1C78, 0x1C7D), (0x1CD0, 0x1CD2), (0x1CD4, 0x1CE0), (0x1CE2, 0x1CE8),
      (0x1CED, 0x1CED), (0x1CF4, 0x1CF4), (0x1CF8, 0x1CF9), (0x1D2C, 0x1D6A), (0x1D78, 0x1D78), (0x1D9B, 0x1DFF),
      (0x1FBD, 0x1FBD), (0x1FBF, 0x1FC1), (0x1FCD, 0x1FCF), (0x1FDD, 0x1FDF), (0x1FED, 0x1FEF), (0x1FFD, 0x1FFE),
      (0x200B, 0x200F), (0x2018, 0x2019), (0x2024, 0x2024), (0x2027, 0x2027), (0x202A, 0x202E), (0x2060, 0x2064),
      (0x2066, 0x206F), (0x2071, 0x2071), (0x207F, 0x207F), (0x2090, 0x209C), (0x20D0, 0x20F0), (0x2C7C, 0x2C7D),
      (0x2CEF, 0x2CF1), (0x2D6F, 0x2D6F), (0x2D7F, 0x2D7F), (0x2DE0, 0x2DFF), (0x2E2F, 0x2E2F), (0x3005, 0x3005),
      (0x302A, 0x302D), (0x3031, 0x3035), (0x303B, 0x303B), (0x3099, 0x309E), (0x30FC, 0x30FE), (0xA015, 0xA015),
      (0xA4F8, 0xA4FD), (0xA60C, 0xA60C), (0xA66F, 0xA672), (0xA674, 0xA67D), (0xA67F, 0xA67F), (0xA69C, 0xA69F),
      (0xA6F0, 0xA6F1), (0xA700, 0xA721), (0xA770, 0xA770), (0xA788, 0xA78A), (0xA7F2, 0xA7F4), (0xA7F8, 0xA7F9),
      (0xA802, 0xA802), (0xA806, 0xA806), (0xA80B, 0xA80B), (0xA825, 0xA826), (0xA82C, 0xA82C), (0xA8C4, 0xA8C5),
      (0xA8E0, 0xA8F1), (0xA8FF, 0xA8FF), (0xA926, 0xA92D), (0xA947, 0xA951), (0xA980, 0xA982), (0xA9B3, 0xA9B3),
      (0xA9B6, 0xA9B9), (0xA9BC, 0xA9BD), (0xA9CF, 0xA9CF), (0xA9E5, 0xA9E6), (0xAA29, 0xAA2E), (0xAA31, 0xAA32),
      (0xAA35, 0xAA36), (0xAA43, 0xAA43), (0xAA4C, 0xAA4C), (0xAA70, 0xAA70), (0xAA7C, 0xAA7C), (0xAAB0, 0xAAB0),
      (0xAAB2, 0xAAB4), (0xAAB7, 0xAAB8), (0xAABE, 0xAABF), (0xAAC1, 0xAAC1), (0xAADD, 0xAADD), (0xAAEC, 0xAAED),
      (0xAAF3, 0xAAF4), (0xAAF6, 0xAAF6), (0xAB5B, 0xAB5F), (0xAB69, 0xAB6B), (0xABE5, 0xABE5), (0xABE8, 0xABE8),
      (0xABED, 0xABED), (0xFB1E, 0xFB1E), (0xFBB2, 0xFBC2), (0xFE00, 0xFE0F), (0xFE13, 0xFE13), (0xFE20, 0xFE2F),
      (0xFE52, 0xFE52), (0xFE55, 0xFE55), (0xFEFF, 0xFEFF), (0xFF07, 0xFF07), (0xFF0E, 0xFF0E), (0xFF1A, 0xFF1A),
      (0xFF3E, 0xFF3E), (0xFF40, 0xFF40), (0xFF70, 0xFF70), (0xFF9E, 0xFF9F), (0xFFE3, 0xFFE3), (0xFFF9, 0xFFFB),
      (0x101FD, 0x101FD), (0x102E0, 0x102E0), (0x10376, 0x1037A), (0x10780, 0x10785), (0x10787, 0x107B0), (0x107B2, 0x107BA),
      (0x10A01, 0x10A03), (0x10A05, 0x10A06), (0x10A0C, 0x10A0F), (0x10A38, 0x10A3A), (0x10A3F, 0x10A3F), (0x10AE5, 0x10AE6),
      (0x10D24, 0x10D27), (0x10EAB, 0x10EAC), (0x10F46, 0x10F50), (0x10F82, 0x10F85), (0x11001, 0x11001), (0x11038, 0x11046),
      (0x11070, 0x11070), (0x11073, 0x11074), (0x1107F, 0x11081), (0x110B3, 0x110B6), (0x110B9, 0x110BA), (0x110BD, 0x110BD),
      (0x110C2, 0x110C2), (0x110CD, 0x110CD), (0x11100, 0x11102), (0x11127, 0x1112B), (0x1112D, 0x11134), (0x11173, 0x11173),
      (0x11180, 0x11181), (0x111B6, 0x111BE), (0x111C9, 0x111CC), (0x111CF, 0x111CF), (0x1122F, 0x11231), (0x11234, 0x11234),
      (0x11236, 0x11237), (0x1123E, 0x1123E), (0x112DF, 0x112DF), (0x112E3, 0x112EA), (0x11300, 0x11301), (0x1133B, 0x1133C),
      (0x11340, 0x11340), (0x11366, 0x1136C), (0x11370, 0x11374), (0x11438, 0x1143F), (0x11442, 0x11444), (0x11446, 0x11446),
      (0x1145E, 0x1145E), (0x114B3, 0x114B8), (0x114BA, 0x114BA), (0x114BF, 0x114C0), (0x114C2, 0x114C3), (0x115B2, 0x115B5),
      (0x115BC, 0x115BD), (0x115BF, 0x115C0), (0x115DC, 0x115DD), (0x11633, 0x1163A), (0x1163D, 0x1163D), (0x1163F, 0x11640),
      (0x116AB, 0x116AB), (0x116AD, 0x116AD), (0x116B0, 0x116B5), (0x116B7, 0x116B7), (0x1171D, 0x1171F), (0x11722, 0x11725),
      (0x11727, 0x1172B), (0x1182F, 0x11837), (0x11839, 0x1183A), (0x1193B, 0x1193C), (0x1193E, 0x1193E), (0x11943, 0x11943),
      (0x119D4, 0x119D7), (0x119DA, 0x119DB), (0x119E0, 0x119E0), (0x11A01, 0x11A0A), (0x11A33, 0x11A38), (0x11A3B, 0x11A3E),
      (0x11A47, 0x11A47), (0x11A51, 0x11A56), (0x11A59, 0x11A5B), (0x11A8A, 0x11A96), (0x11A98, 0x11A99), (0x11C30, 0x11C36),
      (0x11C38, 0x11C3D), (0x11C3F, 0x11C3F), (0x11C92, 0x11CA7), (0x11CAA, 0x11CB0), (0x11CB2, 0x11CB3), (0x11CB5, 0x11CB6),
      (0x11D31, 0x11D36), (0x11D3A, 0x11D3A), (0x11D3C, 0x11D3D), (0x11D3F, 0x11D45), (0x11D47, 0x11D47), (0x11D90, 0x11D91),
      (0x11D95, 0x11D95), (0x11D97, 0x11D97), (0x11EF3, 0x11EF4), (0x13430, 0x13438), (0x16AF0, 0x16AF4), (0x16B30, 0x16B36),
      (0x16B40, 0x16B43), (0x16F4F, 0x16F4F), (0x16F8F, 0x16F9F), (0x16FE0, 0x16FE1), (0x16FE3, 0x16FE4), (0x1AFF0, 0x1AFF3),
      (0x1AFF5, 0x1AFFB), (0x1AFFD, 0x1AFFE), (0x1BC9D, 0x1BC9E), (0x1BCA0, 0x1BCA3), (0x1CF00, 0x1CF2D), (0x1CF30, 0x1CF46),
      (0x1D167, 0x1D169), (0x1D173, 0x1D182), (0x1D185, 0x1D18B), (0x1D1AA, 0x1D1AD), (0x1D242, 0x1D244), (0x1DA00, 0x1DA36),
      (0x1DA3B, 0x1DA6C), (0x1DA75, 0x1DA75), (0x1DA84, 0x1DA84), (0x1DA9B, 0x1DA9F), (0x1DAA1, 0x1DAAF), (0x1E000, 0x1E006),
      (0x1E008, 0x1E018), (0x1E01B, 0x1E021), (0x1E023, 0x1E024), (0x1E026, 0x1E02A), (0x1E130, 0x1E13D), (0x1E2AE, 0x1E2AE),
      (0x1E2EC, 0x1E2EF), (0x1E8D0, 0x1E8D6), (0x1E944, 0x1E94B), (0x1F3FB, 0x1F3FF), (0xE0001, 0xE0001), (0xE0020, 0xE007F),
      (0xE0100, 0xE01EF)]"

fun in_ranges :: "codepoint \<Rightarrow> (codepoint \<times> codepoint) list \<Rightarrow> bool" where
  "in_ranges c [] = False"
| "in_ranges c ((lo, hi) # ranges) =
     (if c < lo then False else if c \<le> hi then True else in_ranges c ranges)"

definition cased :: "codepoint \<Rightarrow> bool" where
  "cased c = in_ranges c cased_ranges"

definition case_ignorable :: "codepoint \<Rightarrow> bool" where
  "case_ignorable c = in_ranges c case_ignorable_ranges"

text \<open>\<open>before\<close> holds the characters before the sigma, the nearest first.\<close>

definition final_sigma :: "str \<Rightarrow> str \<Rightarrow> bool" where
  "final_sigma before after =
     ((case dropWhile case_ignorable before of [] \<Rightarrow> False | c # _ \<Rightarrow> cased c)
      \<and> (case dropWhile case_ignorable after of [] \<Rightarrow> True | c # _ \<Rightarrow> \<not> cased c))"

fun lower_from :: "str \<Rightarrow> str \<Rightarrow> str" where
  "lower_from before [] = []"
| "lower_from before (c # after) =
     (if c = 0x3A3 then [if final_sigma before after then 0x3C2 else 0x3C3] else lower_char c)
       @ lower_from (c # before) after"

definition lower :: "str \<Rightarrow> str" where
  "lower s = lower_from [] s"

subsection \<open>Substrings\<close>

definition startswith :: "'a list \<Rightarrow> 'a list \<Rightarrow> bool" where
  "startswith s p = (take (length p) s = p)"

text \<open>\<open>sub in s\<close> on two strings: \<open>sub\<close> occurs in \<open>s\<close> as a contiguous run.\<close>

fun str_in :: "'a list \<Rightarrow> 'a list \<Rightarrow> bool" where
  "str_in sub [] = (sub = [])"
| "str_in sub (c # cs) = (startswith (c # cs) sub \<or> str_in sub cs)"

text \<open>\<open>s.replace(old, new)\<close> for a non-empty \<open>old\<close>: the occurrences of \<open>old\<close> are
  replaced from the left, without overlap. The first argument counts the characters of a
  match that are still to be skipped.\<close>

fun replace_from :: "nat \<Rightarrow> 'a list \<Rightarrow> 'a list \<Rightarrow> 'a list \<Rightarrow> 'a list" where
  "replace_from n old new [] = []"
| "replace_from (Suc n) old new (c # cs) = replace_from n old new cs"
| "replace_from 0 old new (c # cs) =
     (if startswith (c # cs) old then new @ replace_from (length old - 1) old new cs
      else c # replace_from 0 old new cs)"

definition replace :: "'a list \<Rightarrow> 'a list \<Rightarrow> 'a list \<Rightarrow> 'a list" where
  "replace s old new = replace_from 0 old new s"

subsection \<open>Encoding\<close>

text \<open>
  \<open>s.encode('utf-8')\<close>, which \<open>urllib.parse.quote\<close> applies to its argument and
  \<open>print\<close> to what it writes (standard output is taken to encode as UTF-8, its
  default): the surrogate code points cannot be encoded, and a string with one of them
  raises \<open>UnicodeEncodeError\<close>. Every other code point becomes one to four bytes.
\<close>

definition surrogate :: "codepoint \<Rightarrow> bool" where
  "surrogate c = (0xD800 \<le> c \<and> c \<le> 0xDFFF)"

definition utf8 :: "codepoint \<Rightarrow> nat list" where
  "utf8 c =
     (if c < 0x80 then [c]
      else if c < 0x800 then [0xC0 + c div 0x40, 0x80 + c mod 0x40]
      else if c < 0x10000 then
        [0xE0 + c div 0x1000, 0x80 + c div 0x40 mod 0x40, 0x80 + c mod 0x40]
      else [0xF0 + c div 0x40000, 0x80 + c div 0x1000 mod 0x40,
            0x80 + c div 0x40 mod 0x40, 0x80 + c mod 0x40])"

text \<open>\<open>urllib.parse.quote\<close> with its default \<open>safe='/'\<close>, on the bytes of its
  argument: the bytes of letters, digits and \<open>_.-~/\<close> stay, every other byte becomes
  \<open>%XX\<close>.\<close>

definition hex_digit :: "nat \<Rightarrow> char" where
  "hex_digit n = ''0123456789ABCDEF'' ! (n mod 16)"

definition quote_from_bytes :: "nat list \<Rightarrow> string" where
  "quote_from_bytes bs =
     concat (map (\<lambda>b.
       case find (\<lambda>c. of_char c = b)
              ''ABCDEFGHIJKLMNOPQRSTUVWXYZabcdefghijklmnopqrstuvwxyz0123456789_.-~/'' of
         Some c \<Rightarrow> [c]
       | None \<Rightarrow> [CHR ''%'', hex_digit (b div 16), hex_digit b]) bs)"

text \<open>The quoted form of a string without surrogates; \<open>quote\<close> raises on the others.
  A HOL string has no surrogates.\<close>

definition quoted :: "str \<Rightarrow> string" where
  "quoted s = quote_from_bytes (concat (map utf8 s))"

section \<open>Exceptions\<close>

text \<open>The exceptions that can leave a function of \<open>openalex_core.py\<close>. A function that
  can raise returns \<open>error + 'a\<close>, with \<open>Inl\<close> for the exception.\<close>

datatype error =
  ValueError | KeyError | IndexError | AttributeError | TypeError | UnicodeEncodeError
  | OverflowError

text \<open>\<open>quote(s)\<close> and \<open>print(s)\<close> on a \<open>str\<close>.\<close>

definition quote :: "str \<Rightarrow> error + string" where
  "quote s = (if list_ex surrogate s then Inl UnicodeEncodeError else Inr (quoted s))"

definition print :: "str \<Rightarrow> error + unit" where
  "print s = (if list_ex surrogate s then Inl UnicodeEncodeError else Inr ())"

text \<open>
  \<open>int(s)\<close> on a header value, a string of characters below 256: surrounding
  whitespace is dropped, then an optional sign and decimal digits, where single
  underscores may separate digits; anything else raises \<open>ValueError\<close>. The whitespace
  \<open>int\<close> drops is that of C below 127 and that of \<open>isspace\<close> from 127 on. The decimal
  digits below 256 are \<open>0\<close> to \<open>9\<close>.
\<close>

definition int_space :: "char \<Rightarrow> bool" where
  "int_space c =
     (if of_char c < (127::nat) then c \<in> set [CHR 0x09, CHR 0x0A, CHR 0x0B, CHR 0x0C, CHR 0x0D, CHR 0x20]
      else isspace (of_char c))"

definition isdigit :: "char \<Rightarrow> bool" where
  "isdigit c = (c \<in> set ''0123456789'')"

definition digit_value :: "char \<Rightarrow> nat" where
  "digit_value c = of_char c - 48"

fun digits_from :: "nat \<Rightarrow> string \<Rightarrow> nat option" where
  "digits_from acc [] = Some acc"
| "digits_from acc [c] = (if isdigit c then Some (10 * acc + digit_value c) else None)"
| "digits_from acc (c # d # cs) =
     (if isdigit c then digits_from (10 * acc + digit_value c) (d # cs)
      else if c = CHR ''_'' \<and> isdigit d then digits_from acc (d # cs)
      else None)"

definition digits :: "string \<Rightarrow> nat option" where
  "digits s = (case s of [] \<Rightarrow> None | c # cs \<Rightarrow> if isdigit c then digits_from 0 (c # cs) else None)"

definition int_of_str :: "string \<Rightarrow> error + int" where
  "int_of_str s =
     (case rev (dropWhile int_space (rev (dropWhile int_space s))) of
        [] \<Rightarrow> Inl ValueError
      | c # cs \<Rightarrow>
          if c = CHR ''-'' then (case digits cs of None \<Rightarrow> Inl ValueError | Some n \<Rightarrow> Inr (- int n))
          else if c = CHR ''+'' then (case digits cs of None \<Rightarrow> Inl ValueError | Some n \<Rightarrow> Inr (int n))
          else (case digits (c # cs) of None \<Rightarrow> Inl ValueError | Some n \<Rightarrow> Inr (int n)))"

section \<open>Floating-point numbers\<close>

text \<open>
  A Python \<open>float\<close> is an IEEE 754 double: a real number with a significand of 53 bits.
  The result of an operation is the exact result rounded to the nearest double, to the
  one with an even significand when two are equally near. The doubles between \<open>2^e\<close> and
  \<open>2^(e+1)\<close> are the multiples of \<open>2^(e-52)\<close>, and \<open>-1022\<close> is the least \<open>e\<close>. Doubles are
  written as the real numbers they are.
\<close>

text \<open>\<open>n.bit_length()\<close>: the number of binary digits of \<open>n\<close>.\<close>

fun bit_length :: "nat \<Rightarrow> nat" where
  "bit_length n = (if n = 0 then 0 else Suc (bit_length (n div 2)))"

declare bit_length.simps [simp del]

text \<open>The \<open>e\<close> with \<open>2^e \<le> a < 2^(e+1)\<close>, for a positive \<open>a\<close>.\<close>

definition exponent :: "real \<Rightarrow> int" where
  "exponent a =
     (if 1 \<le> a then int (bit_length (nat \<lfloor>a\<rfloor>)) - 1
      else - int (bit_length (nat (\<lceil>1 / a\<rceil> - 1))))"

text \<open>The distance between the doubles around a positive \<open>a\<close>.\<close>

definition ulp :: "real \<Rightarrow> real" where
  "ulp a =
     (let e = max (exponent a) (- 1022)
      in if e \<le> 52 then 1 / 2 ^ nat (52 - e) else 2 ^ nat (e - 52))"

definition round_half_even :: "real \<Rightarrow> int" where
  "round_half_even x =
     (if x - of_int \<lfloor>x\<rfloor> < 1 / 2 then \<lfloor>x\<rfloor>
      else if 1 / 2 < x - of_int \<lfloor>x\<rfloor> then \<lfloor>x\<rfloor> + 1
      else if even \<lfloor>x\<rfloor> then \<lfloor>x\<rfloor> else \<lfloor>x\<rfloor> + 1)"

text \<open>The double nearest to a real number. The numbers rounded here are below \<open>2^1024\<close>,
  where the doubles end.\<close>

definition round_double :: "real \<Rightarrow> real" where
  "round_double x =
     (if x = 0 then 0
      else sgn x * of_int (round_half_even (\<bar>x\<bar> / ulp \<bar>x\<bar>)) * ulp \<bar>x\<bar>)"

text \<open>\<open>x + y\<close> on two floats.\<close>

definition float_add :: "real \<Rightarrow> real \<Rightarrow> real" where
  "float_add x y = round_double (x + y)"

text \<open>The conversion of an \<open>int\<close> to a \<open>float\<close>, which \<open>+\<close> applies to an \<open>int\<close> operand
  when the other is a \<open>float\<close>: it raises \<open>OverflowError\<close> when the nearest double
  would be \<open>2^1024\<close> or beyond.\<close>

definition float_of_int :: "int \<Rightarrow> error + real" where
  "float_of_int i =
     (if \<bar>round_double (of_int i)\<bar> < 2 ^ 1024 then Inr (round_double (of_int i))
      else Inl OverflowError)"

section \<open>The process and its environment\<close>

text \<open>
  What the process does to the outside is recorded in \<open>events\<close>, oldest first: every
  \<open>time.sleep(d)\<close> and every \<open>requests.get(url, ...)\<close>. What the outside does to the
  process is scripted: \<open>replies\<close> holds the outcomes of the HTTP requests still to come,
  in the order the requests are made, and \<open>jitter\<close> the floats \<open>random.uniform(0, 1)\<close>
  still has to return. A script that has run out answers like a dead connection
  (respectively with 0). Durations are numbers of seconds.

  What the program prints is not recorded, but \<open>print\<close> raises when it cannot encode
  its text. The model has the calls where this can happen: the one on the institution
  name (line 111) and those on a display name (lines 136 and 141). Every other string
  printed has been printed or quoted before, or is a HOL string.

  A reply is either an exception of \<open>requests.exceptions.RequestException\<close> raised by
  \<open>requests.get\<close>, or a response with its status code, its \<open>Retry-After\<close> header
  (\<open>None\<close> when the header is absent) and what \<open>response.json()\<close> returns (\<open>None\<close> when
  the body is not JSON: \<open>json()\<close> then raises \<open>requests.exceptions.JSONDecodeError\<close>,
  which is a \<open>RequestException\<close>). The type \<open>'d\<close> is that of parsed JSON documents.
\<close>

datatype event = Sleep real | Get string

record 'd response =
  status_code :: int
  retry_after :: "string option"
  json :: "'d option"

datatype 'd outcome = RequestException | Response "'d response"

record ('d, 'c) world =
  replies :: "'d outcome list"
  jitter :: "real list"
  events :: "event list"
  orcid_cache :: "(string \<times> 'c) list"

text \<open>\<open>time.sleep(d)\<close> raises \<open>ValueError\<close> for a negative duration. It also refuses
  the durations it cannot count in nanoseconds, those of \<open>2^63\<close> nanoseconds (some 292
  years) and more; these are left out.\<close>

definition time_sleep :: "real \<Rightarrow> ('d, 'c) world \<Rightarrow> (error + unit) \<times> ('d, 'c) world" where
  "time_sleep d w =
     (if d < 0 then (Inl ValueError, w) else (Inr (), w\<lparr>events := events w @ [Sleep d]\<rparr>))"

definition random_uniform :: "('d, 'c) world \<Rightarrow> real \<times> ('d, 'c) world" where
  "random_uniform w = (case jitter w of [] \<Rightarrow> (0, w) | j # js \<Rightarrow> (j, w\<lparr>jitter := js\<rparr>))"

definition requests_get :: "string \<Rightarrow> ('d, 'c) world \<Rightarrow> 'd outcome \<times> ('d, 'c) world" where
  "requests_get url w =
     (case replies w of
        [] \<Rightarrow> (RequestException, w\<lparr>events := events w @ [Get url]\<rparr>)
      | r # rs \<Rightarrow> (r, w\<lparr>replies := rs, events := events w @ [Get url]\<rparr>))"

section \<open>\<open>make_api_request\<close>\<close>

text \<open>What one pass through the body of a loop does: it returns from the function,
  goes on to the next iteration, or raises an exception that nothing in the function
  catches. Inside the \<open>try\<close> block a \<open>RequestException\<close> can be raised as well, the
  one exception \<open>make_api_request\<close> catches.\<close>

datatype 'a flow = Return 'a | Continue | Raise error

datatype 'a tried = RequestRaised | Completed "'a flow"

text \<open>Lines 25-28: the backoff before every attempt but the first. In
  \<open>(2 ** attempt) + random.uniform(0, 1)\<close> the power is an \<open>int\<close> and the jitter a
  \<open>float\<close>: once the jitter is drawn the power is converted, and the two are added as
  floats.\<close>

definition backoff :: "nat \<Rightarrow> ('d, 'c) world \<Rightarrow> (error + unit) \<times> ('d, 'c) world" where
  "backoff attempt w =
     (if attempt > 0 then
        (case random_uniform w of
           (j, w1) \<Rightarrow>
             (case float_of_int (2 ^ attempt) of
                Inl e \<Rightarrow> (Inl e, w1)
              | Inr p \<Rightarrow> time_sleep (float_add p j) w1))
      else (Inr (), w))"

text \<open>Line 33: \<open>int(response.headers.get('Retry-After', 60))\<close>.\<close>

definition retry_after_seconds :: "'d response \<Rightarrow> error + int" where
  "retry_after_seconds r = (case retry_after r of None \<Rightarrow> Inr 60 | Some s \<Rightarrow> int_of_str s)"

text \<open>Lines 25-52: the \<open>try\<close> block of one attempt.\<close>

definition try_block ::
  "string \<Rightarrow> nat \<Rightarrow> ('d, 'c) world \<Rightarrow> 'd option tried \<times> ('d, 'c) world" where
  "try_block url attempt w =
     (case backoff attempt w of
        (Inl e, w1) \<Rightarrow> (Completed (Raise e), w1)
      | (Inr _, w1) \<Rightarrow>
          (case requests_get url w1 of
             (RequestException, w2) \<Rightarrow> (RequestRaised, w2)
           | (Response r, w2) \<Rightarrow>
               if status_code r = 429 then
                 (case retry_after_seconds r of
                    Inl e \<Rightarrow> (Completed (Raise e), w2)
                  | Inr n \<Rightarrow>
                      (case time_sleep (of_int n) w2 of
                         (Inl e, w3) \<Rightarrow> (Completed (Raise e), w3)
                       | (Inr _, w3) \<Rightarrow> (Completed Continue, w3)))
               else if status_code r = 200 then
                 (case json r of None \<Rightarrow> (RequestRaised, w2) | Some d \<Rightarrow> (Completed (Return (Some d)), w2))
               else if status_code r = 403 then
                 (case time_sleep 5 w2 of
                    (Inl e, w3) \<Rightarrow> (Completed (Raise e), w3)
                  | (Inr _, w3) \<Rightarrow> (Completed Continue, w3))
               else if status_code r = 404 then (Completed (Return None), w2)
               else (Completed Continue, w2)))"

text \<open>Lines 54-59: the handler of \<open>RequestException\<close>.\<close>

definition except_block ::
  "int \<Rightarrow> nat \<Rightarrow> ('d, 'c) world \<Rightarrow> 'd option flow \<times> ('d, 'c) world" where
  "except_block max_retries attempt w =
     (if int attempt = max_retries - 1 then (Return None, w)
      else (case time_sleep 2 w of
              (Inl e, w1) \<Rightarrow> (Raise e, w1)
            | (Inr _, w1) \<Rightarrow> (Continue, w1)))"

definition loop_body ::
  "string \<Rightarrow> int \<Rightarrow> nat \<Rightarrow> ('d, 'c) world \<Rightarrow> 'd option flow \<times> ('d, 'c) world" where
  "loop_body url max_retries attempt w =
     (case try_block url attempt w of
        (RequestRaised, w1) \<Rightarrow> except_block max_retries attempt w1
      | (Completed f, w1) \<Rightarrow> (f, w1))"

text \<open>Lines 23-61: \<open>for attempt in range(max_retries)\<close>, from \<open>attempt\<close> on, and the
  \<open>return None\<close> after the loop.\<close>

function attempts ::
  "string \<Rightarrow> int \<Rightarrow> nat \<Rightarrow> ('d, 'c) world \<Rightarrow> (error + 'd option) \<times> ('d, 'c) world" where
  "attempts url max_retries attempt w =
     (if int attempt < max_retries then
        (case loop_body url max_retries attempt w of
           (Return v, w1) \<Rightarrow> (Inr v, w1)
         | (Raise e, w1) \<Rightarrow> (Inl e, w1)
         | (Continue, w1) \<Rightarrow> attempts url max_retries (Suc attempt) w1)
      else (Inr None, w))"
  by pat_completeness auto
termination
  by (relation "measure (\<lambda>(url, max_retries, attempt, w). nat (max_retries - int attempt))") auto

text \<open>The headers are the same two constant entries at every call site and change
  nothing the model records; they are left out.\<close>

definition make_api_request ::
  "string \<Rightarrow> int \<Rightarrow> ('d, 'c) world \<Rightarrow> (error + 'd option) \<times> ('d, 'c) world" where
  "make_api_request url max_retries w = attempts url max_retries 0 w"

declare attempts.simps [simp del]


section \<open>JSON documents\<close>

text \<open>
  A key of a JSON object is absent, holds \<open>null\<close>, or holds a value. \<open>d.get(k)\<close> is
  \<open>None\<close> in the first two cases; \<open>d.get(k, default)\<close> is the default only when the key
  is absent. A Python value that is \<open>None\<close> or a value of type \<open>'a\<close> is an \<open>'a option\<close>.
\<close>

datatype 'a field = Absent | Null | Val 'a

definition get :: "'a field \<Rightarrow> 'a option" where
  "get f = (case f of Val v \<Rightarrow> Some v | _ \<Rightarrow> None)"

definition get_or :: "'a field \<Rightarrow> 'a \<Rightarrow> 'a option" where
  "get_or f d = (case f of Absent \<Rightarrow> Some d | Null \<Rightarrow> None | Val v \<Rightarrow> Some v)"

text \<open>Truth value of a string or \<open>None\<close>: \<open>None\<close> and the empty string are false.\<close>

definition truthy :: "'a list option \<Rightarrow> bool" where
  "truthy v = (case v of None \<Rightarrow> False | Some s \<Rightarrow> s \<noteq> [])"

text \<open>
  The JSON objects of the two APIs, as far as the program reads them: every key the
  program reads is a field, with the type the API gives its value. An \<open>entity\<close> has the
  scalar keys (of an institution, an author or a work); an \<open>item\<close> of a results page has
  the nested objects as well; a \<open>document\<close> is a whole response: a results page, an
  author's detail record or an ORCID record. The ORCID keys are nested three deep:
  \<open>person.emails.email\<close> and \<open>activities-summary.employments.employment-summary\<close>.
\<close>

record entity =
  id' :: "string field"
  display_name :: "str field"
  type' :: "string field"
  orcid :: "string field"
  doi :: "string field"
  title :: "string field"
  works_count :: "int field"
  cited_by_count :: "int field"

text \<open>The empty object \<open>{}\<close>, read as an entity.\<close>

definition empty_entity :: entity where
  "empty_entity =
     \<lparr>id' = Absent, display_name = Absent, type' = Absent, orcid = Absent, doi = Absent,
      title = Absent, works_count = Absent, cited_by_count = Absent\<rparr>"

record authorship =
  author :: "entity field"
  institutions :: "entity list field"

record item = entity +
  last_known_institution :: "entity field"
  authorships :: "authorship list field"

record email_entry =
  email :: "string field"
  visibility :: "string field"

record employment =
  department_name :: "string field"

record document = item +
  results :: "item list field"
  person :: "email_entry list field field field"
  activities_summary :: "employment list field field field"

text \<open>A dict with string values or \<open>None\<close>, in insertion order; \<open>[]\<close> is \<open>{}\<close>.\<close>

type_synonym str_dict = "(string \<times> string option) list"

definition dict_get :: "str_dict \<Rightarrow> string \<Rightarrow> string option" where
  "dict_get d k = (case map_of d k of None \<Rightarrow> None | Some v \<Rightarrow> v)"

type_synonym state = "(document, str_dict) world"

section \<open>\<open>enrich_with_orcid\<close>\<close>

text \<open>\<open>data.get(k1, {}).get(k2, {}).get(k3, [])\<close>, and the \<open>for\<close> loop over it: a \<open>null\<close>
  on the way raises (\<open>None\<close> has no \<open>get\<close> and cannot be iterated).\<close>

definition nested :: "'a list field field field \<Rightarrow> error + 'a list" where
  "nested f =
     (case f of
        Absent \<Rightarrow> Inr []
      | Null \<Rightarrow> Inl AttributeError
      | Val g \<Rightarrow>
          (case g of
             Absent \<Rightarrow> Inr []
           | Null \<Rightarrow> Inl AttributeError
           | Val h \<Rightarrow> (case h of Absent \<Rightarrow> Inr [] | Null \<Rightarrow> Inl TypeError | Val xs \<Rightarrow> Inr xs)))"

text \<open>Lines 80-85: the first email with public visibility.\<close>

definition public_email :: "email_entry list \<Rightarrow> string option" where
  "public_email emails =
     (case find (\<lambda>e. get (visibility e) = Some ''PUBLIC'') emails of
        None \<Rightarrow> None
      | Some e \<Rightarrow> get (email e))"

text \<open>Lines 88-94: the first department name that is not empty.\<close>

definition first_department :: "employment list \<Rightarrow> string option" where
  "first_department employment_summaries =
     (case find (\<lambda>emp. truthy (get (department_name emp))) employment_summaries of
        None \<Rightarrow> None
      | Some emp \<Rightarrow> get (department_name emp))"

text \<open>Lines 77-99: the result built from a record, or the exception raised on the way.\<close>

definition orcid_result :: "document \<Rightarrow> error + str_dict" where
  "orcid_result data =
     (case nested (person data) of
        Inl e \<Rightarrow> Inl e
      | Inr emails \<Rightarrow>
          (case nested (activities_summary data) of
             Inl e \<Rightarrow> Inl e
           | Inr employment_summaries \<Rightarrow>
               Inr [(''Email'', public_email emails),
                    (''Department'', first_department employment_summaries)]))"

definition orcid_url :: "string \<Rightarrow> string" where
  "orcid_url orcid_id = ''https://pub.orcid.org/v3.0/'' @ orcid_id"

text \<open>Lines 63-108. The request is a single \<open>requests.get\<close>; every exception of the
  \<open>try\<close> block is caught, so the function always returns a dict.\<close>

definition enrich_with_orcid :: "string \<Rightarrow> state \<Rightarrow> str_dict \<times> state" where
  "enrich_with_orcid orcid_id w =
     (case map_of (orcid_cache w) orcid_id of
        Some cached \<Rightarrow> (cached, w)
      | None \<Rightarrow>
          (case requests_get (orcid_url orcid_id) w of
             (RequestException, w1) \<Rightarrow> ([], w1)
           | (Response response, w1) \<Rightarrow>
               if status_code response = 200 then
                 (case json response of
                    None \<Rightarrow> ([], w1)
                  | Some data \<Rightarrow>
                      (case orcid_result data of
                         Inl e \<Rightarrow> ([], w1)
                       | Inr result \<Rightarrow>
                           (result, w1\<lparr>orcid_cache := orcid_cache w1 @ [(orcid_id, result)]\<rparr>)))
               else ([], w1)))"

subsection \<open>Success of a lookup\<close>

text \<open>The next reply of the registry makes a lookup succeed: it is a response with
  status 200 whose body is a JSON record from which the result is built without an
  exception. Any other reply (another status, an exception of \<open>requests.get\<close> such as
  a timeout, a body that is not JSON or not of the expected shape) makes it fail.\<close>

definition served :: "state \<Rightarrow> bool" where
  "served w =
     (case replies w of
        Response response # _ \<Rightarrow>
          status_code response = 200 \<and>
          (case json response of
             None \<Rightarrow> False
           | Some data \<Rightarrow> (case orcid_result data of Inl e \<Rightarrow> False | Inr result \<Rightarrow> True))
      | _ \<Rightarrow> False)"

section \<open>\<open>get_institution_id\<close>\<close>

text \<open>Line 126: the URL of a search, from the quoted search term.\<close>

definition institution_url :: "string \<Rightarrow> string" where
  "institution_url safe_name =
     ''https://api.openalex.org/institutions?search='' @ safe_name @ ''&per_page=10''"

text \<open>Lines 118-122. \<open>institution_name.split()[0]\<close> raises \<open>IndexError\<close> when the name
  has no token.\<close>

definition search_terms :: "str \<Rightarrow> error + str list" where
  "search_terms institution_name =
     (case split institution_name of
        [] \<Rightarrow> Inl IndexError
      | token # _ \<Rightarrow>
          Inr [institution_name, strip (replace institution_name (str_of ''University'') []),
               token])"

text \<open>Lines 133-134: the test of one candidate. \<open>None.lower()\<close> raises.\<close>

definition name_matches :: "str \<Rightarrow> 'a entity_scheme \<Rightarrow> error + bool" where
  "name_matches institution_name institution =
     (case get_or (display_name institution) [] of
        None \<Rightarrow> Inl AttributeError
      | Some n \<Rightarrow>
          Inr (str_in (lower institution_name) (lower n) \<or> str_in (lower n) (lower institution_name)))"

text \<open>Lines 135-137 and 140-142: the identifier returned for a candidate, the part of
  its \<open>id\<close> after the last \<open>/\<close>. \<open>institution['id']\<close> and, in the message printed,
  \<open>institution['display_name']\<close> raise \<open>KeyError\<close> when the key is absent; the message
  is printed before the identifier is returned.\<close>

definition short_id :: "'a entity_scheme \<Rightarrow> error + string" where
  "short_id institution =
     (case id' institution of
        Absent \<Rightarrow> Inl KeyError
      | Null \<Rightarrow> Inl TypeError
      | Val i \<Rightarrow>
          (let institution_id = (if str_in ''/'' i then last (split_on CHR ''/'' i) else i)
           in case display_name institution of
                Absent \<Rightarrow> Inl KeyError
              | Null \<Rightarrow> Inr institution_id
              | Val n \<Rightarrow> (case print n of Inl e \<Rightarrow> Inl e | Inr _ \<Rightarrow> Inr institution_id)))"

text \<open>Lines 132-137: the loop over a results page; \<open>None\<close> when it ends without a
  \<open>return\<close>.\<close>

fun first_match :: "str \<Rightarrow> 'a entity_scheme list \<Rightarrow> error + string option" where
  "first_match institution_name [] = Inr None"
| "first_match institution_name (institution # rest) =
     (case name_matches institution_name institution of
        Inl e \<Rightarrow> Inl e
      | Inr True \<Rightarrow> (case short_id institution of Inl e \<Rightarrow> Inl e | Inr i \<Rightarrow> Inr (Some i))
      | Inr False \<Rightarrow> first_match institution_name rest)"

text \<open>Lines 132-142, on a results page that is not empty.\<close>

definition select_institution :: "str \<Rightarrow> 'a entity_scheme list \<Rightarrow> error + string" where
  "select_institution institution_name page =
     (case first_match institution_name page of
        Inl e \<Rightarrow> Inl e
      | Inr (Some i) \<Rightarrow> Inr i
      | Inr None \<Rightarrow> (case page of [] \<Rightarrow> Inl IndexError | institution # _ \<Rightarrow> short_id institution))"

text \<open>\<open>data and data.get('results')\<close>: the results page of a response, when there is a
  response and its page is not empty.\<close>

definition results_of :: "document option \<Rightarrow> item list option" where
  "results_of data =
     (case data of
        None \<Rightarrow> None
      | Some d \<Rightarrow> (case get (results d) of None \<Rightarrow> None | Some [] \<Rightarrow> None | Some page \<Rightarrow> Some page))"

text \<open>Lines 124-145: the loop over the search terms and the \<open>return None\<close> after it.
  The term printed on line 128 has just been encoded by \<open>quote\<close>.\<close>

fun try_terms :: "str \<Rightarrow> str list \<Rightarrow> state \<Rightarrow> (error + string option) \<times> state" where
  "try_terms institution_name [] w = (Inr None, w)"
| "try_terms institution_name (search_term # rest) w =
     (case quote search_term of
        Inl e \<Rightarrow> (Inl e, w)
      | Inr safe_name \<Rightarrow>
          (case make_api_request (institution_url safe_name) 5 w of
             (Inl e, w1) \<Rightarrow> (Inl e, w1)
           | (Inr data, w1) \<Rightarrow>
               (case results_of data of
                  None \<Rightarrow> try_terms institution_name rest w1
                | Some page \<Rightarrow>
                    (case select_institution institution_name page of
                       Inl e \<Rightarrow> (Inl e, w1)
                     | Inr institution_id \<Rightarrow> (Inr (Some institution_id), w1)))))"

text \<open>Lines 110-145. The name is printed first (line 111), and once more before
  \<open>return None\<close>.\<close>

definition get_institution_id :: "str \<Rightarrow> state \<Rightarrow> (error + string option) \<times> state" where
  "get_institution_id institution_name w =
     (case print institution_name of
        Inl e \<Rightarrow> (Inl e, w)
      | Inr _ \<Rightarrow>
          (case search_terms institution_name of
             Inl e \<Rightarrow> (Inl e, w)
           | Inr terms \<Rightarrow> try_terms institution_name terms w))"

subsection \<open>The selection rule of the specification\<close>

text \<open>The results page a call of the executor yields, if any; and a call that returns
  without one.\<close>

definition page_of :: "error + document option \<Rightarrow> item list option" where
  "page_of r = (case r of Inl e \<Rightarrow> None | Inr data \<Rightarrow> results_of data)"





section \<open>Author records\<close>

text \<open>The dict built for an author. \<open>Recent_Work_Title\<close> and \<open>DOI\<close> are keys of the
  records of the work-centric search only: they are \<open>Absent\<close> in the others.\<close>

record author_record =
  OpenAlex_ID :: "string option"
  Full_Name :: "str option"
  Institution :: "str option"
  Email :: "string option"
  Department :: "string option"
  ORCID :: "string option"
  Matched_Keyword :: string
  Works_Count :: "int option"
  Cited_By_Count :: "int option"
  Recent_Work_Title :: "string field"
  DOI :: "string field"
  Paper_URL :: "string option"

text \<open>\<open>enrich_with_orcid(orcid_id) if orcid_id else {}\<close>.\<close>

definition enriched_for :: "string option \<Rightarrow> state \<Rightarrow> str_dict \<times> state" where
  "enriched_for orcid_id w =
     (case orcid_id of
        None \<Rightarrow> ([], w)
      | Some i \<Rightarrow> if i = [] then ([], w) else enrich_with_orcid i w)"

section \<open>\<open>find_authors_by_works\<close>\<close>

definition works_url :: "string \<Rightarrow> string \<Rightarrow> string" where
  "works_url keyword institution_id =
     ''https://api.openalex.org/works?filter=institutions.id:I'' @ institution_id
       @ ''&search='' @ quoted (str_of keyword) @ ''&per_page=50''"

definition author_url :: "string \<Rightarrow> string" where
  "author_url author_id = ''https://api.openalex.org/authors/'' @ author_id"

text \<open>Lines 165-168: the author of an authorship and its id, when the authorship has
  an author with a non-empty id that is not yet a key of \<open>authors_dict\<close>.\<close>

definition new_author ::
  "authorship \<Rightarrow> (string \<times> author_record) list \<Rightarrow> (entity \<times> string) option" where
  "new_author a authors_dict =
     (case get_or (author a) empty_entity of
        None \<Rightarrow> None
      | Some au \<Rightarrow>
          (case get (id' au) of
             None \<Rightarrow> None
           | Some author_id \<Rightarrow>
               if author_id \<noteq> [] \<and> author_id \<notin> set (map fst authors_dict)
               then Some (au, author_id) else None))"

text \<open>Lines 171-174: the loop over the institutions of an authorship.\<close>

fun matching_institution :: "string \<Rightarrow> str \<Rightarrow> entity list \<Rightarrow> str option" where
  "matching_institution institution_id university_name [] = Some university_name"
| "matching_institution institution_id university_name (institution # rest) =
     (if truthy (get (id' institution))
         \<and> str_in (''I'' @ institution_id) (case id' institution of Val i \<Rightarrow> i | _ \<Rightarrow> [])
      then get_or (display_name institution) university_name
      else matching_institution institution_id university_name rest)"

text \<open>Lines 169-174. Iterating \<open>None\<close> raises \<open>TypeError\<close>.\<close>

definition author_institution_of :: "string \<Rightarrow> str \<Rightarrow> authorship \<Rightarrow> error + str option" where
  "author_institution_of institution_id university_name a =
     (case get_or (institutions a) [] of
        None \<Rightarrow> Inl TypeError
      | Some insts \<Rightarrow> Inr (matching_institution institution_id university_name insts))"

text \<open>Lines 176-184. \<open>None.replace\<close> raises \<open>AttributeError\<close>.\<close>

definition paper_url_of :: "'a entity_scheme \<Rightarrow> error + string" where
  "paper_url_of work =
     (if truthy (get (doi work))
      then Inr (''https://doi.org/'' @ (case doi work of Val d \<Rightarrow> d | _ \<Rightarrow> []))
      else if truthy (get_or (title work) [])
      then Inr (''https://scholar.google.com/scholar?q=''
                  @ quoted (str_of (case title work of Val t \<Rightarrow> t | _ \<Rightarrow> [])))
      else (case get_or (id' work) [] of
              None \<Rightarrow> Inl AttributeError
            | Some i \<Rightarrow> Inr (replace i ''https://openalex.org/'' ''https://openalex.org/works/'')))"

text \<open>Lines 169-202: the record of an author seen for the first time.\<close>

definition new_record ::
  "string \<Rightarrow> string \<Rightarrow> str \<Rightarrow> item \<Rightarrow> authorship \<Rightarrow> entity \<Rightarrow> string \<Rightarrow> state
     \<Rightarrow> (error + author_record) \<times> state" where
  "new_record keyword institution_id university_name work a au author_id w =
     (case author_institution_of institution_id university_name a of
        Inl e \<Rightarrow> (Inl e, w)
      | Inr author_institution \<Rightarrow>
          (case paper_url_of work of
             Inl e \<Rightarrow> (Inl e, w)
           | Inr paper_url \<Rightarrow>
               (case enriched_for (get (orcid au)) w of
                  (enriched, w1) \<Rightarrow>
                    (Inr \<lparr>OpenAlex_ID = Some author_id,
                          Full_Name = get_or (display_name au) (str_of ''Unknown''),
                          Institution = author_institution,
                          Email = dict_get enriched ''Email'',
                          Department = dict_get enriched ''Department'',
                          ORCID = get (orcid au),
                          Matched_Keyword = keyword,
                          Works_Count = Some 0,
                          Cited_By_Count = Some 0,
                          Recent_Work_Title =
                            (case title work of Absent \<Rightarrow> Val ''Unknown'' | t \<Rightarrow> t),
                          DOI = (case doi work of Absent \<Rightarrow> Null | d \<Rightarrow> d),
                          Paper_URL = Some paper_url\<rparr>, w1))))"

text \<open>Lines 164-202: the loop over the authorships of a work. \<open>authors_dict\<close> is in
  insertion order.\<close>

fun scan_authorships ::
  "string \<Rightarrow> string \<Rightarrow> str \<Rightarrow> item \<Rightarrow> authorship list \<Rightarrow> (string \<times> author_record) list
     \<Rightarrow> state \<Rightarrow> (error + (string \<times> author_record) list) \<times> state" where
  "scan_authorships keyword institution_id university_name work [] authors_dict w =
     (Inr authors_dict, w)"
| "scan_authorships keyword institution_id university_name work (a # rest) authors_dict w =
     (case new_author a authors_dict of
        None \<Rightarrow>
          scan_authorships keyword institution_id university_name work rest authors_dict w
      | Some (au, author_id) \<Rightarrow>
          (case new_record keyword institution_id university_name work a au author_id w of
             (Inl e, w1) \<Rightarrow> (Inl e, w1)
           | (Inr r, w1) \<Rightarrow>
               scan_authorships keyword institution_id university_name work rest
                 (authors_dict @ [(author_id, r)]) w1))"

text \<open>Lines 163-202: the loop over the works of the page.\<close>

fun scan_works ::
  "string \<Rightarrow> string \<Rightarrow> str \<Rightarrow> item list \<Rightarrow> (string \<times> author_record) list
     \<Rightarrow> state \<Rightarrow> (error + (string \<times> author_record) list) \<times> state" where
  "scan_works keyword institution_id university_name [] authors_dict w = (Inr authors_dict, w)"
| "scan_works keyword institution_id university_name (work # rest) authors_dict w =
     (case get_or (authorships work) [] of
        None \<Rightarrow> (Inl TypeError, w)
      | Some as \<Rightarrow>
          (case scan_authorships keyword institution_id university_name work as authors_dict w of
             (Inl e, w1) \<Rightarrow> (Inl e, w1)
           | (Inr authors_dict1, w1) \<Rightarrow>
               scan_works keyword institution_id university_name rest authors_dict1 w1))"

text \<open>Lines 210-218: the record after its detail lookup.\<close>

definition with_details :: "document option \<Rightarrow> author_record \<Rightarrow> author_record" where
  "with_details detailed_data author_data =
     (case detailed_data of
        None \<Rightarrow> author_data
      | Some d \<Rightarrow>
          (let named = (case get_or (last_known_institution d) empty_entity of
                          None \<Rightarrow> None
                        | Some inst \<Rightarrow>
                            if truthy (get (display_name inst)) then get (display_name inst)
                            else None)
           in (case named of None \<Rightarrow> author_data | Some n \<Rightarrow> author_data\<lparr>Institution := Some n\<rparr>)
                \<lparr>Works_Count := get_or (works_count d) 0,
                 Cited_By_Count := get_or (cited_by_count d) 0\<rparr>))"

text \<open>Lines 204-220: the loop of detail lookups.\<close>

fun detail_lookups ::
  "(string \<times> author_record) list \<Rightarrow> state \<Rightarrow> (error + author_record list) \<times> state" where
  "detail_lookups [] w = (Inr [], w)"
| "detail_lookups ((author_id, author_data) # rest) w =
     (case time_sleep (1 / 2) w of
        (Inl e, w1) \<Rightarrow> (Inl e, w1)
      | (Inr _, w1) \<Rightarrow>
          (case make_api_request (author_url author_id) 5 w1 of
             (Inl e, w2) \<Rightarrow> (Inl e, w2)
           | (Inr detailed_data, w2) \<Rightarrow>
               (case detail_lookups rest w2 of
                  (Inl e, w3) \<Rightarrow> (Inl e, w3)
                | (Inr author_details, w3) \<Rightarrow>
                    (Inr (with_details detailed_data author_data # author_details), w3))))"

text \<open>Lines 147-222.\<close>

definition find_authors_by_works ::
  "string \<Rightarrow> string \<Rightarrow> str \<Rightarrow> state \<Rightarrow> (error + author_record list) \<times> state" where
  "find_authors_by_works keyword institution_id university_name w =
     (case make_api_request (works_url keyword institution_id) 5 w of
        (Inl e, w1) \<Rightarrow> (Inl e, w1)
      | (Inr data, w1) \<Rightarrow>
          (case results_of data of
             None \<Rightarrow> (Inr [], w1)
           | Some page \<Rightarrow>
               (case scan_works keyword institution_id university_name page [] w1 of
                  (Inl e, w2) \<Rightarrow> (Inl e, w2)
                | (Inr authors_dict, w2) \<Rightarrow> detail_lookups (take 20 authors_dict) w2)))"

subsection \<open>The author ids of a works page\<close>

text \<open>The author id an authorship contributes: that of its author, when it has an
  author with a non-empty id (the test of lines 165-166).\<close>

definition authorship_id :: "authorship \<Rightarrow> string option" where
  "authorship_id a =
     (case get_or (author a) empty_entity of
        None \<Rightarrow> None
      | Some au \<Rightarrow>
          (case get (id' au) of
             None \<Rightarrow> None
           | Some author_id \<Rightarrow> if author_id = [] then None else Some author_id))"

text \<open>The author ids of a works page in the order in which the two loops meet them,
  with repetitions.\<close>

definition encountered :: "item list \<Rightarrow> string list" where
  "encountered page =
     concat (map (\<lambda>work. List.map_filter authorship_id
                            (case get_or (authorships work) [] of None \<Rightarrow> [] | Some as \<Rightarrow> as))
                 page)"

text \<open>The first occurrences of a list, in order: the elements that are neither in
  \<open>seen\<close> nor earlier in the list.\<close>

fun first_seen_from :: "string list \<Rightarrow> string list \<Rightarrow> string list" where
  "first_seen_from seen [] = []"
| "first_seen_from seen (x # xs) =
     (if x \<in> set seen then first_seen_from seen xs else x # first_seen_from (seen @ [x]) xs)"

definition first_seen :: "string list \<Rightarrow> string list" where
  "first_seen xs = first_seen_from [] xs"

text \<open>Every record of the dict is filed under its own \<open>OpenAlex_ID\<close>.\<close>

definition keyed :: "(string \<times> author_record) list \<Rightarrow> bool" where
  "keyed d = list_all (\<lambda>p. OpenAlex_ID (snd p) = Some (fst p)) d"

section \<open>\<open>find_authors_direct\<close>\<close>

definition authors_url :: "string \<Rightarrow> string \<Rightarrow> string" where
  "authors_url keyword institution_id =
     ''https://api.openalex.org/authors?filter=last_known_institution.id:I'' @ institution_id
       @ ''&search='' @ quoted (str_of keyword) @ ''&per_page=25''"

text \<open>Lines 241-260: the record of one author of the page. \<open>None.get\<close> raises
  \<open>AttributeError\<close>.\<close>

definition direct_record ::
  "string \<Rightarrow> str \<Rightarrow> item \<Rightarrow> state \<Rightarrow> (error + author_record) \<times> state" where
  "direct_record keyword university_name au w =
     (let institution_name =
            (case last_known_institution au of
               Val inst \<Rightarrow>
                 if truthy (get (display_name inst)) then get (display_name inst)
                 else Some university_name
             | _ \<Rightarrow> Some university_name)
      in case enriched_for (get (orcid au)) w of
           (enriched, w1) \<Rightarrow>
             (case (if truthy (dict_get enriched ''Department'')
                    then Inr (dict_get enriched ''Department'')
                    else (case last_known_institution au of
                            Absent \<Rightarrow> Inr None
                          | Null \<Rightarrow> Inl AttributeError
                          | Val inst \<Rightarrow> Inr (get (type' inst)))) of
                Inl e \<Rightarrow> (Inl e, w1)
              | Inr department \<Rightarrow>
                  (Inr \<lparr>OpenAlex_ID = get (id' au),
                        Full_Name = get (display_name au),
                        Institution = institution_name,
                        Email = dict_get enriched ''Email'',
                        Department = department,
                        ORCID = get (orcid au),
                        Matched_Keyword = keyword,
                        Works_Count = get_or (works_count au) 0,
                        Cited_By_Count = get_or (cited_by_count au) 0,
                        Recent_Work_Title = Absent,
                        DOI = Absent,
                        Paper_URL = None\<rparr>, w1)))"

text \<open>Lines 239-260: the loop over the page.\<close>

fun direct_records ::
  "string \<Rightarrow> str \<Rightarrow> item list \<Rightarrow> state \<Rightarrow> (error + author_record list) \<times> state" where
  "direct_records keyword university_name [] w = (Inr [], w)"
| "direct_records keyword university_name (au # rest) w =
     (case direct_record keyword university_name au w of
        (Inl e, w1) \<Rightarrow> (Inl e, w1)
      | (Inr r, w1) \<Rightarrow>
          (case direct_records keyword university_name rest w1 of
             (Inl e, w2) \<Rightarrow> (Inl e, w2)
           | (Inr authors, w2) \<Rightarrow> (Inr (r # authors), w2)))"

text \<open>Lines 224-262.\<close>

definition find_authors_direct ::
  "string \<Rightarrow> string \<Rightarrow> str \<Rightarrow> state \<Rightarrow> (error + author_record list) \<times> state" where
  "find_authors_direct keyword institution_id university_name w =
     (case make_api_request (authors_url keyword institution_id) 5 w of
        (Inl e, w1) \<Rightarrow> (Inl e, w1)
      | (Inr data, w1) \<Rightarrow>
          (case results_of data of
             None \<Rightarrow> (Inr [], w1)
           | Some page \<Rightarrow> direct_records keyword university_name page w1))"

section \<open>\<open>find_authors\<close>\<close>

text \<open>Lines 264-276.\<close>

definition find_authors ::
  "string \<Rightarrow> string \<Rightarrow> str \<Rightarrow> state \<Rightarrow> (error + author_record list) \<times> state" where
  "find_authors keyword institution_id university_name w =
     (case find_authors_by_works keyword institution_id university_name w of
        (Inl e, w1) \<Rightarrow> (Inl e, w1)
      | (Inr authors, w1) \<Rightarrow>
          if length authors < 5 then
            (case find_authors_direct keyword institution_id university_name w1 of
               (Inl e, w2) \<Rightarrow> (Inl e, w2)
             | (Inr direct_authors, w2) \<Rightarrow>
                 (Inr (authors @ filter (\<lambda>a. OpenAlex_ID a \<notin> set (map OpenAlex_ID authors))
                                  direct_authors), w2))
          else (Inr authors, w1))"

section \<open>\<open>find_researchers_with_api\<close>\<close>






text \<open>\<open>DataFrame.drop_duplicates(subset=['OpenAlex_ID'])\<close>: a row is dropped when its
  \<open>OpenAlex_ID\<close> is that of a row before it. The first argument holds the ids seen.\<close>

fun drop_duplicates_from :: "string option list \<Rightarrow> author_record list \<Rightarrow> author_record list" where
  "drop_duplicates_from seen [] = []"
| "drop_duplicates_from seen (a # rest) =
     (if OpenAlex_ID a \<in> set seen then drop_duplicates_from seen rest
      else a # drop_duplicates_from (OpenAlex_ID a # seen) rest)"

definition drop_duplicates :: "author_record list \<Rightarrow> author_record list" where
  "drop_duplicates df = drop_duplicates_from [] df"


section \<open>Stub servers\<close>

text \<open>Replies of a stub API, and the process started on a script of replies and jitter
  values, with nothing done yet and an empty ORCID cache.\<close>

definition rate_limited :: "string \<Rightarrow> 'd response" where
  "rate_limited s = \<lparr>status_code = 429, retry_after = Some s, json = None\<rparr>"

definition ok :: "'d \<Rightarrow> 'd response" where
  "ok d = \<lparr>status_code = 200, retry_after = None, json = Some d\<rparr>"

definition not_found :: "'d response" where
  "not_found = \<lparr>status_code = 404, retry_after = None, json = None\<rparr>"

definition server_error :: "'d response" where
  "server_error = \<lparr>status_code = 500, retry_after = None, json = None\<rparr>"

definition scripted :: "'d response list \<Rightarrow> real list \<Rightarrow> ('d, 'c) world" where
  "scripted rs js = \<lparr>replies = map Response rs, jitter = js, events = [], orcid_cache = []\<rparr>"

text \<open>An item of a results page with an id and a display name and no other key, and
  the document of a results page.\<close>

definition named_item :: "string \<Rightarrow> str \<Rightarrow> item" where
  "named_item i n =
     \<lparr>id' = Val i, display_name = Val n, type' = Absent, orcid = Absent, doi = Absent,
      title = Absent, works_count = Absent, cited_by_count = Absent,
      last_known_institution = Absent, authorships = Absent\<rparr>"

definition results_page :: "item list \<Rightarrow> document" where
  "results_page items =
     \<lparr>id' = Absent, display_name = Absent, type' = Absent, orcid = Absent, doi = Absent,
      title = Absent, works_count = Absent, cited_by_count = Absent,
      last_known_institution = Absent, authorships = Absent,
      results = Val items, person = Absent, activities_summary = Absent\<rparr>"




definition limited_until_date :: "(string, unit) world" where
  "limited_until_date = scripted [rate_limited ''Wed, 21 Oct 2015 07:28:00 GMT''] []"

definition limited_missing_late :: "(string, unit) world" where
  "limited_missing_late = scripted [rate_limited ''1'', not_found, ok ''late''] [0]"

definition one_ok :: "(string, unit) world" where
  "one_ok = scripted [ok ''x''] [1 / 4]"

text \<open>A server error, then a 200; the jitter drawn is the greatest double below 1.\<close>

definition late_draw :: "(string, unit) world" where
  "late_draw = scripted [server_error, ok ''x''] [1 - 1 / 2 ^ 53]"

text \<open>The institution name \<open>Ex Lab\<close>, and a script for the resolver: the first search
  returns two candidates, the second of which has the queried name inside its display
  name; a second reply is ready, should another search be made.\<close>

definition ex_lab :: str where
  "ex_lab = str_of ''Ex Lab''"

definition two_candidates :: "item list" where
  "two_candidates =
     [named_item ''https://openalex.org/I7'' (str_of ''Other Place''),
      named_item ''https://openalex.org/I9'' (str_of ''The EX LAB Annex'')]"

definition resolver_script :: state where
  "resolver_script =
     scripted [ok (results_page two_candidates),
               ok (results_page [named_item ''https://openalex.org/I1'' (str_of ''Ex'')])] []"

text \<open>A name whose first letter is not ASCII, U+00C9 (E with acute accent) followed
  by \<open>cole\<close>, and a script for the resolver on it: the first search returns two
  candidates, \<open>Other\<close> and the name in lower case, whose first letter is U+00E9.\<close>

definition ecole :: str where
  "ecole = 0xC9 # str_of ''cole''"



text \<open>Scripts for the identity registry: a record with one public email and one
  department, and a registry that answers 500 first.\<close>

definition orcid_record :: "email_entry list \<Rightarrow> employment list \<Rightarrow> document" where
  "orcid_record emails employments =
     \<lparr>id' = Absent, display_name = Absent, type' = Absent, orcid = Absent, doi = Absent,
      title = Absent, works_count = Absent, cited_by_count = Absent,
      last_known_institution = Absent, authorships = Absent,
      results = Absent, person = Val (Val (Val emails)),
      activities_summary = Val (Val (Val employments))\<rparr>"

definition ada_record :: document where
  "ada_record =
     orcid_record [\<lparr>email = Val ''ada@example.org'', visibility = Val ''PUBLIC''\<rparr>]
       [\<lparr>department_name = Val ''Physics''\<rparr>]"

definition registry_up :: state where
  "registry_up = scripted [ok ada_record] []"

definition registry_down :: state where
  "registry_down = scripted [server_error, ok ada_record] []"

text \<open>Scripts for the author searches: the reference to an author in an authorship, and
  a work with its title and its authorships.\<close>

definition author_ref :: "string \<Rightarrow> str \<Rightarrow> entity" where
  "author_ref i n = empty_entity\<lparr>id' := Val i, display_name := Val n\<rparr>"

definition by_author :: "entity \<Rightarrow> authorship" where
  "by_author au = \<lparr>author = Val au, institutions = Absent\<rparr>"

definition work_item :: "string \<Rightarrow> authorship list \<Rightarrow> item" where
  "work_item t as = (named_item [] [])\<lparr>id' := Absent, display_name := Absent,
     title := Val t, authorships := Val as\<rparr>"

text \<open>A works page with one work signed by 21 authors, followed by a 404 for every author
  lookup.\<close>

definition crowd_ids :: "string list" where
  "crowd_ids = [''A01'', ''A02'', ''A03'', ''A04'', ''A05'', ''A06'', ''A07'', ''A08'', ''A09'',
     ''A10'', ''A11'', ''A12'', ''A13'', ''A14'', ''A15'', ''A16'', ''A17'', ''A18'', ''A19'',
     ''A20'', ''A21'']"

definition crowded_work :: item where
  "crowded_work = work_item ''Crowd'' (map (\<lambda>i. by_author (author_ref i (str_of ''X''))) crowd_ids)"

definition crowded_script :: state where
  "crowded_script =
     scripted (ok (results_page [crowded_work]) # map (\<lambda>i. not_found) crowd_ids) []"

definition twice_listed :: "item list" where
  "twice_listed = [named_item ''A1'' (str_of ''Ann''), named_item ''A1'' (str_of ''Ann'')]"

definition direct_script :: state where
  "direct_script = scripted [not_found, ok (results_page twice_listed)] []"

text \<open>The record the direct search builds for A1, with the keyword \<open>cooling\<close> at the
  institution \<open>Ex Lab\<close>.\<close>

definition ann :: author_record where
  "ann = \<lparr>OpenAlex_ID = Some ''A1'', Full_Name = Some (str_of ''Ann''),
           Institution = Some ex_lab,
           Email = None, Department = None, ORCID = None, Matched_Keyword = ''cooling'',
           Works_Count = Some 0, Cited_By_Count = Some 0, Recent_Work_Title = Absent,
           DOI = Absent, Paper_URL = None\<rparr>"


text \<open>A works search answered 404, followed by a direct search that lists A1 once.\<close>

definition once_listed_script :: state where
  "once_listed_script =
     scripted [not_found, ok (results_page [named_item ''A1'' (str_of ''Ann'')])] []"

section \<open>Properties of floating-point numbers\<close>

subsection \<open>Binades\<close>

lemma bit_length_bounds: "0 < n \<Longrightarrow> 2 ^ (bit_length n - 1) \<le> n \<and> n < 2 ^ bit_length n"
proof (induction n rule: bit_length.induct)
  case (1 n)
  show ?case
  proof (cases "n div 2 = 0")
    case True
    with "1.prems" have "n = 1" by (simp add: div_eq_0_iff) 
    then show ?thesis by (simp add: bit_length.simps)
  next
    case False
    with "1.IH" "1.prems" have ih: "2 ^ (bit_length (n div 2) - 1) \<le> n div 2"
      "n div 2 < 2 ^ bit_length (n div 2)" by simp_all
    have b: "bit_length n = Suc (bit_length (n div 2))"
      using "1.prems" by (subst bit_length.simps) simp
    have p: "0 < bit_length (n div 2)" using False by (subst bit_length.simps) simp
    from ih(1) have "2 * 2 ^ (bit_length (n div 2) - 1) \<le> n" by linarith
    moreover from p have "(2::nat) * 2 ^ (bit_length (n div 2) - 1) = 2 ^ bit_length (n div 2)"
      by (cases "bit_length (n div 2)") simp_all
    moreover from ih(2) have "n < 2 * 2 ^ bit_length (n div 2)" by linarith
    ultimately show ?thesis by (simp add: b)
  qed
qed

lemma bit_length_eq:
  assumes "2 ^ k \<le> n" and "n < 2 ^ Suc k"
  shows "bit_length n = Suc k"
proof -
  have "(0::nat) < 2 ^ k" by simp
  with assms(1) have n: "0 < n" by linarith
  from bit_length_bounds [OF n] have lo: "2 ^ (bit_length n - 1) \<le> n" and hi: "n < 2 ^ bit_length n"
    by simp_all
  from assms(1) hi have "(2::nat) ^ k < 2 ^ bit_length n" by linarith
  then have a: "k < bit_length n" by (simp only: power_strict_increasing_iff rel_simps)
  from lo assms(2) have "(2::nat) ^ (bit_length n - 1) < 2 ^ Suc k" by linarith
  then have "bit_length n - 1 < Suc k" by (simp only: power_strict_increasing_iff rel_simps)
  with a show ?thesis by linarith
qed

lemma exponent_binade:
  assumes "2 ^ k \<le> x" and "x < 2 ^ Suc k"
  shows "exponent x = int k"
proof -
  have "(1::real) \<le> 2 ^ k" by simp
  with assms(1) have one: "1 \<le> x" by linarith
  then have f0: "0 \<le> \<lfloor>x\<rfloor>" by simp
  have "(2::real) ^ k = of_int (2 ^ k)" by simp
  with assms(1) have "(2::int) ^ k \<le> \<lfloor>x\<rfloor>" by (simp only: le_floor_iff)
  then have "int (2 ^ k) \<le> \<lfloor>x\<rfloor>" by simp
  with f0 have lo: "2 ^ k \<le> nat \<lfloor>x\<rfloor>" by linarith
  have "(2::real) ^ Suc k = of_int (2 ^ Suc k)" by simp
  with assms(2) have "\<lfloor>x\<rfloor> < (2::int) ^ Suc k" by (simp only: floor_less_iff)
  then have "\<lfloor>x\<rfloor> < int (2 ^ Suc k)" by simp
  with f0 have hi: "nat \<lfloor>x\<rfloor> < 2 ^ Suc k" by linarith
  from bit_length_eq [OF lo hi] one show ?thesis by (simp add: exponent_def)
qed

lemma round_half_even_ge: "of_int k \<le> x \<Longrightarrow> k \<le> round_half_even x"
proof -
  assume "of_int k \<le> x"
  then have "k \<le> \<lfloor>x\<rfloor>" by (simp add: le_floor_iff)
  then show ?thesis by (simp add: round_half_even_def)
qed

lemma round_half_even_le: "x \<le> of_int k \<Longrightarrow> round_half_even x \<le> k"
proof (cases "x = of_int k")
  case True
  then show ?thesis by (simp add: round_half_even_def)
next
  case False
  assume "x \<le> of_int k"
  with False have "x < of_int k" by simp
  then have "\<lfloor>x\<rfloor> < k" by (simp add: floor_less_iff)
  then show ?thesis by (simp add: round_half_even_def)
qed

lemma round_half_even_int: "round_half_even (of_int k) = k"
  by (simp add: round_half_even_def)

lemma ulp_binade:
  assumes "2 ^ k \<le> x" and "x < 2 ^ Suc k"
  shows "ulp x = (if k \<le> 52 then 1 / 2 ^ (52 - k) else 2 ^ (k - 52))"
  using exponent_binade [OF assms]
  by (simp add: ulp_def Let_def nat_diff_distrib')

lemma pow_split: "k \<le> n \<Longrightarrow> (2::real) ^ n * (1 / 2 ^ (n - k)) = 2 ^ k"
proof -
  assume "k \<le> n"
  then have "(2::real) ^ n = 2 ^ k * 2 ^ (n - k)" by (simp flip: power_add)
  then show ?thesis by simp
qed

lemma pow_split': "n \<le> k \<Longrightarrow> (2::real) ^ n * 2 ^ (k - n) = 2 ^ k"
  by (simp flip: power_add)

lemma ulp_scale:
  assumes "2 ^ k \<le> x" and "x < 2 ^ Suc k"
  shows "2 ^ 52 * ulp x = 2 ^ k" and "0 < ulp x"
proof -
  show "2 ^ 52 * ulp x = 2 ^ k"
  proof (cases "k \<le> 52")
    case True
    then have "ulp x = 1 / 2 ^ (52 - k)" by (simp add: ulp_binade [OF assms])
    with pow_split [OF True] show ?thesis by (simp only:)
  next
    case False
    then have "52 \<le> k" by simp
    moreover from False have "ulp x = 2 ^ (k - 52)" by (simp add: ulp_binade [OF assms])
    ultimately show ?thesis using pow_split' [of 52 k] by (simp only:)
  qed
  show "0 < ulp x" by (simp add: ulp_binade [OF assms])
qed

lemma round_double_pos:
  "0 < x \<Longrightarrow> round_double x = of_int (round_half_even (x / ulp x)) * ulp x"
  by (simp add: round_double_def)

lemma round_double_ge:
  assumes "2 ^ k \<le> x" and "x < 2 ^ Suc k"
  shows "2 ^ k \<le> round_double x"
proof -
  note u = ulp_scale [OF assms]
  have "(0::real) < 2 ^ k" by simp
  with assms(1) have x: "0 < x" by linarith
  from u(1) have "2 ^ k / ulp x = 2 ^ 52" using u(2) by (simp add: field_simps)
  moreover from assms(1) u(2) have "2 ^ k / ulp x \<le> x / ulp x" by (simp add: divide_right_mono)
  ultimately have "of_int (2 ^ 52) \<le> x / ulp x" by simp
  then have "2 ^ 52 \<le> round_half_even (x / ulp x)" by (rule round_half_even_ge)
  then have "(of_int (2 ^ 52) :: real) \<le> of_int (round_half_even (x / ulp x))"
    by (simp only: of_int_le_iff)
  then have "(2::real) ^ 52 \<le> of_int (round_half_even (x / ulp x))" by simp
  with u(2) have "2 ^ 52 * ulp x \<le> of_int (round_half_even (x / ulp x)) * ulp x"
    by (simp add: mult_right_mono)
  with u(1) x show ?thesis by (simp add: round_double_pos)
qed

lemma round_double_power: "round_double (2 ^ k) = 2 ^ k"
proof -
  have a: "(2::real) ^ k \<le> 2 ^ k" "(2::real) ^ k < 2 ^ Suc k" by simp_all
  note u = ulp_scale [OF a]
  from u have "2 ^ k / ulp (2 ^ k) = of_int (2 ^ 52)" by (simp add: field_simps)
  then have "round_half_even (2 ^ k / ulp (2 ^ k)) = 2 ^ 52" by (simp only: round_half_even_int)
  with u(1) show ?thesis by (simp add: round_double_pos)
qed

subsection \<open>The sum of a power of two and a number below 1\<close>

lemma float_add_bounds:
  assumes "0 < k" and "0 \<le> j" and "j < 1"
  shows "2 ^ k \<le> float_add (2 ^ k) j" and "float_add (2 ^ k) j \<le> 2 ^ k + 1"
proof -
  let ?x = "2 ^ k + j"
  have lo: "2 ^ k \<le> ?x" using assms by simp
  have "(1::real) \<le> 2 ^ k" by simp
  with assms have "j < 2 ^ k" by linarith
  then have hi: "?x < 2 ^ Suc k" by simp
  note u = ulp_scale [OF lo hi]
  have "(0::real) < 2 ^ k" by simp
  with lo have x: "0 < ?x" by linarith
  show "2 ^ k \<le> float_add (2 ^ k) j"
    unfolding float_add_def by (rule round_double_ge [OF lo hi])
  show "float_add (2 ^ k) j \<le> 2 ^ k + 1"
  proof (cases "k \<le> 52")
    case True
    then have ul: "ulp ?x = 1 / 2 ^ (52 - k)" by (simp add: ulp_binade [OF lo hi])
    have "?x / ulp ?x \<le> (2 ^ k + 1) / ulp ?x"
      using assms u(2) by (simp add: divide_right_mono)
    also have "(2 ^ k + 1) / ulp ?x = 2 ^ k / ulp ?x + 1 / ulp ?x" by (simp add: add_divide_distrib)
    also have "2 ^ k / ulp ?x = 2 ^ 52" using u by (simp add: field_simps)
    also have "1 / ulp ?x = 2 ^ (52 - k)" by (simp add: ul)
    also have "(2::real) ^ 52 + 2 ^ (52 - k) = of_int (2 ^ 52 + 2 ^ (52 - k))" by simp
    finally have "round_half_even (?x / ulp ?x) \<le> 2 ^ 52 + 2 ^ (52 - k)"
      by (rule round_half_even_le)
    then have "(of_int (round_half_even (?x / ulp ?x)) :: real) \<le> of_int (2 ^ 52 + 2 ^ (52 - k))"
      by (simp only: of_int_le_iff)
    then have "of_int (round_half_even (?x / ulp ?x)) \<le> (2::real) ^ 52 + 2 ^ (52 - k)" by simp
    with u(2) have "of_int (round_half_even (?x / ulp ?x)) * ulp ?x
                      \<le> (2 ^ 52 + 2 ^ (52 - k)) * ulp ?x"
      by (simp add: mult_right_mono)
    also have "(2 ^ 52 + 2 ^ (52 - k)) * ulp ?x = 2 ^ 52 * ulp ?x + 2 ^ (52 - k) * ulp ?x"
      by (simp add: distrib_right)
    also have "2 ^ (52 - k) * ulp ?x = 1" by (simp add: ul)
    finally show ?thesis using u(1) x by (simp add: float_add_def round_double_pos)
  next
    case False
    then have ul: "ulp ?x = 2 ^ (k - 52)" by (simp add: ulp_binade [OF lo hi])
    have "(2::real) ^ 1 \<le> 2 ^ (k - 52)" using False by (intro power_increasing) simp_all
    then have "1 / ulp ?x \<le> 1 / 2" unfolding ul by (simp add: field_simps)
    moreover have "j / ulp ?x < 1 / ulp ?x" using assms u(2) by (simp add: divide_strict_right_mono)
    moreover have "0 \<le> j / ulp ?x" using assms u(2) by simp
    moreover have "?x / ulp ?x = 2 ^ k / ulp ?x + j / ulp ?x" by (simp add: add_divide_distrib)
    moreover have "2 ^ k / ulp ?x = 2 ^ 52" using u by (simp add: field_simps)
    ultimately have fr: "?x / ulp ?x = of_int (2 ^ 52) + j / ulp ?x" "0 \<le> j / ulp ?x" "j / ulp ?x < 1 / 2"
      by simp_all
    then have "of_int (2 ^ 52) \<le> ?x / ulp ?x" "?x / ulp ?x < of_int (2 ^ 52) + 1"
      by linarith+
    then have fl: "\<lfloor>?x / ulp ?x\<rfloor> = 2 ^ 52" by (rule floor_unique)
    with fr have "round_half_even (?x / ulp ?x) = 2 ^ 52"
      by (simp add: round_half_even_def)
    with u(1) x show ?thesis by (simp add: float_add_def round_double_pos)
  qed
qed

lemma round_double_nonneg: "0 \<le> x \<Longrightarrow> 0 \<le> round_double x"
proof -
  assume x: "0 \<le> x"
  have u: "0 < ulp y" for y by (simp add: ulp_def Let_def)
  have "0 \<le> x / ulp x" by (rule divide_nonneg_pos [OF x u])
  then have "(0::int) \<le> round_half_even (x / ulp x)" by (intro round_half_even_ge) simp
  with x u [of x] show ?thesis by (simp add: round_double_def sgn_if)
qed

lemma float_of_int_power:
  "float_of_int (2 ^ k) = (if k < 1024 then Inr (2 ^ k) else Inl OverflowError)"
proof -
  have "round_double (of_int (2 ^ k)) = 2 ^ k" using round_double_power [of k] by simp
  moreover have "\<bar>(2::real) ^ k\<bar> = 2 ^ k" by simp
  moreover have "((2::real) ^ k < 2 ^ 1024) = (k < 1024)"
    by (rule power_strict_increasing_iff) simp
  ultimately show ?thesis by (simp only: float_of_int_def)
qed

lemma float_of_int_2: "float_of_int 2 = Inr 2"
  using float_of_int_power [of 1] by simp

lemma float_add_nonneg: "0 \<le> x \<Longrightarrow> 0 \<le> y \<Longrightarrow> 0 \<le> float_add x y"
  unfolding float_add_def by (rule round_double_nonneg) simp


section \<open>Properties of \<open>make_api_request\<close>\<close>

subsection \<open>What one attempt does to the environment\<close>


lemma time_sleep_cases:
  "time_sleep d w = (r, w') \<Longrightarrow>
     (r = Inl ValueError \<and> w' = w \<and> d < 0) \<or>
     (r = Inr () \<and> w' = w\<lparr>events := events w @ [Sleep d]\<rparr> \<and> 0 \<le> d)"
  by (auto simp: time_sleep_def split: if_splits)

lemma requests_get_world:
  "requests_get url w = (out, w') \<Longrightarrow>
     replies w' = tl (replies w) \<and> events w' = events w @ [Get url]"
  by (auto simp: requests_get_def split: list.splits)

lemma backoff_world:
  "backoff n w = (r, w1) \<Longrightarrow> replies w1 = replies w \<and> (\<exists>es. events w1 = events w @ es)"
  by (auto simp: backoff_def random_uniform_def time_sleep_def
      split: if_splits list.splits sum.splits)

text \<open>The backoff of an attempt after the first, with a jitter that is not negative.\<close>

lemma backoff_step:
  assumes "0 < n" and "n < 1024" and "jitter w = j # js" and "0 \<le> j"
  shows "backoff n w =
           (Inr (), w\<lparr>jitter := js, events := events w @ [Sleep (float_add (2 ^ n) j)]\<rparr>)"
proof -
  have "0 \<le> float_add (2 ^ n) j" using assms(4) by (intro float_add_nonneg) simp_all
  then have "\<not> float_add (2 ^ n) j < 0" by simp
  with assms show ?thesis
    by (simp add: backoff_def random_uniform_def time_sleep_def float_of_int_power)
qed

lemma backoff_raises:
  "backoff n w = (Inl e, w1) \<Longrightarrow> loop_body url m n w = (Raise e, w1)"
  by (simp add: loop_body_def try_block_def)

text \<open>Once the backoff is over, an attempt takes exactly one reply off the script, and
  its first event is its request.\<close>

lemma after_get:
  assumes "backoff n w = (Inr u, w1)" and "loop_body url m n w = (f, w')"
  shows "replies w' = tl (replies w1) \<and> (\<exists>es. events w' = events w1 @ Get url # es)"
proof -
  obtain out w2 where g: "requests_get url w1 = (out, w2)" by force
  note w2 = requests_get_world [OF g]
  show ?thesis
  proof (cases out)
    case RequestException
    with assms g have "except_block m n w2 = (f, w')"
      by (simp add: loop_body_def try_block_def)
    then show ?thesis using w2
      by (auto simp: except_block_def split: if_splits prod.splits sum.splits
          dest!: time_sleep_cases)
  next
    case (Response r)
    show ?thesis using assms g Response w2
      by (auto simp: loop_body_def try_block_def except_block_def
          split: if_splits sum.splits prod.splits option.splits dest!: time_sleep_cases)
  qed
qed

lemma loop_body_404:
  assumes "backoff n w = (Inr u, w1)" and "replies w1 = Response r # rest"
    and "status_code r = 404"
  shows "loop_body url m n w =
           (Return None, w1\<lparr>replies := rest, events := events w1 @ [Get url]\<rparr>)"
  using assms by (simp add: loop_body_def try_block_def requests_get_def)

lemma backoff_bounds:
  assumes "\<forall>j\<in>set (jitter w). 0 \<le> j \<and> j < 1" and "n < 1024"
  shows "\<exists>w1. backoff n w = (Inr (), w1) \<and>
           (if n = 0 then events w1 = events w
            else \<exists>d. events w1 = events w @ [Sleep d] \<and> 2 ^ n \<le> d \<and> d \<le> 2 ^ n + 1)"
proof (cases "n = 0")
  case True
  then show ?thesis by (simp add: backoff_def)
next
  case False
  then have n: "0 < n" by simp
  define j where "j = (case jitter w of [] \<Rightarrow> 0 | j # js \<Rightarrow> j)"
  have j: "0 \<le> j" "j < 1" using assms(1) by (auto simp: j_def split: list.splits)
  note b = float_add_bounds [OF n j]
  have "(0::real) \<le> 2 ^ n" by simp
  with b(1) have "\<not> float_add (2 ^ n) j < 0" by linarith
  with n assms(2) have "\<exists>w1. backoff n w = (Inr (), w1)
      \<and> events w1 = events w @ [Sleep (float_add (2 ^ n) j)]"
    by (cases "jitter w")
       (simp_all add: backoff_def random_uniform_def time_sleep_def float_of_int_power j_def)
  with b False show ?thesis by auto
qed

lemma loop_body_events:
  assumes "loop_body url m a w = (f, w1)"
  shows "\<exists>es. events w1 = events w @ es"
proof -
  obtain r0 w0 where b: "backoff a w = (r0, w0)" by force
  from backoff_world [OF b] obtain es0 where w0: "events w0 = events w @ es0" by blast
  show ?thesis
  proof (cases r0)
    case (Inl e)
    with b assms have "w1 = w0" by (simp add: backoff_raises)
    with w0 show ?thesis by simp
  next
    case (Inr u)
    with b after_get [of a w u w0 url m f w1] assms w0 show ?thesis by auto
  qed
qed

text \<open>A run only ever adds events.\<close>

lemma attempts_events:
  "attempts url m a w = (res, w') \<Longrightarrow> \<exists>es. events w' = events w @ es"
proof (induction url m a w rule: attempts.induct)
  case (1 url m a w)
  show ?case
  proof (cases "int a < m")
    case False
    with "1.prems" show ?thesis by (simp add: attempts.simps)
  next
    case True
    obtain f w1 where lb: "loop_body url m a w = (f, w1)" by force
    from loop_body_events [OF lb] obtain es1 where w1: "events w1 = events w @ es1" by blast
    show ?thesis
    proof (cases f)
      case (Return v)
      with lb True "1.prems" w1 show ?thesis by (auto simp: attempts.simps)
    next
      case (Raise e)
      with lb True "1.prems" w1 show ?thesis by (auto simp: attempts.simps)
    next
      case Continue
      with lb True "1.prems" have "attempts url m (Suc a) w1 = (res, w')"
        by (simp add: attempts.simps)
      from "1.IH" [OF True lb [symmetric] Continue this] w1 show ?thesis by auto
    qed
  qed
qed

subsection \<open>Rate limiting (claim C1)\<close>




subsection \<open>What escapes the executor (claim C5)\<close>

text \<open>
  Claim C5: \<open>make_api_request\<close> never raises to its caller, whatever the responses and
  their headers. The code breaks this: only \<open>RequestException\<close> is caught, and
  \<open>int(...)\<close> on a \<open>Retry-After\<close> header that is not an integer (an HTTP date, which the
  header may hold) raises \<open>ValueError\<close> that leaves the function.
\<close>

theorem retry_after_date_raises:
  "fst (make_api_request ''u'' 5 limited_until_date) = Inl ValueError"
  by (simp add: make_api_request_def attempts.simps [of _ _ 0]
      loop_body_def try_block_def backoff_def requests_get_def
      retry_after_seconds_def limited_until_date_def scripted_def rate_limited_def
      int_of_str_def int_space_def digits_def isdigit_def)

subsection \<open>404 is terminal (claim C7)\<close>

text \<open>
  Claim C7: a 404 response is terminal at every attempt index. Take the loop at any
  attempt index and any script of replies in which some reply is a 404. If the run
  gets as far as that reply (the script left over at the end is no longer than what
  follows the 404), then the run returns \<open>None\<close>, nothing after the 404 has been taken
  off the script (no further request), and the request the 404 answered is the last
  event of the run (no further sleep).
\<close>

theorem not_found_is_terminal:
  assumes "attempts url max_retries attempt w = (res, w')"
    and "replies w = pre @ Response r # post" and "status_code r = 404"
    and "length (replies w') \<le> length post"
  shows "res = Inr None \<and> replies w' = post \<and> (\<exists>es. events w' = events w @ es @ [Get url])"
  using assms
proof (induction url max_retries attempt w arbitrary: pre rule: attempts.induct)
  case (1 url m a w)
  show ?case
  proof (cases "int a < m")
    case False
    with "1.prems" show ?thesis by (simp add: attempts.simps)
  next
    case True
    obtain f w1 where lb: "loop_body url m a w = (f, w1)" by force
    obtain r0 w0 where b: "backoff a w = (r0, w0)" by force
    from backoff_world [OF b] obtain es0 where
      w0: "replies w0 = replies w" "events w0 = events w @ es0"
      by blast
    show ?thesis
    proof (cases r0)
      case (Inl e)
      with b have "loop_body url m a w = (Raise e, w0)" by (simp add: backoff_raises)
      with True "1.prems"(1) have "w' = w0" by (simp add: attempts.simps)
      with "1.prems" w0 show ?thesis by simp
    next
      case (Inr u)
      with b have b': "backoff a w = (Inr u, w0)" by simp
      from after_get [OF b' lb] obtain es1 where
        w1: "replies w1 = tl (replies w0)" "events w1 = events w0 @ Get url # es1" by blast
      show ?thesis
      proof (cases pre)
        case Nil
        with "1.prems"(2) w0 have "replies w0 = Response r # post" by simp
        from loop_body_404 [OF b' this "1.prems"(3)] True "1.prems"(1) w0
        show ?thesis by (auto simp: attempts.simps)
      next
        case (Cons p pre')
        with "1.prems"(2) w0 w1 have r1: "replies w1 = pre' @ Response r # post" by simp
        show ?thesis
        proof (cases f)
          case (Return v)
          with lb True "1.prems"(1) have "w' = w1" by (simp add: attempts.simps)
          with r1 "1.prems"(4) show ?thesis by simp
        next
          case (Raise e)
          with lb True "1.prems"(1) have "w' = w1" by (simp add: attempts.simps)
          with r1 "1.prems"(4) show ?thesis by simp
        next
          case Continue
          with lb True "1.prems"(1) have "attempts url m (Suc a) w1 = (res, w')"
            by (simp add: attempts.simps)
          from "1.IH" [OF True lb [symmetric] Continue this r1 "1.prems"(3) "1.prems"(4)]
          show ?thesis using w0 w1 by auto
        qed
      qed
    qed
  qed
qed

theorem not_found_is_terminal_witness:
  "fst (make_api_request ''u'' 5 limited_missing_late) = Inr None
   \<and> replies (snd (make_api_request ''u'' 5 limited_missing_late)) = [Response (ok ''late'')]
   \<and> (\<exists>es. events (snd (make_api_request ''u'' 5 limited_missing_late)) = es @ [Get ''u''])"
proof -
  have b: "backoff (Suc 0) w = (Inr (), w\<lparr>jitter := [], events := events w @ [Sleep (float_add 2 0)]\<rparr>)"
    if "jitter w = [0]" for w :: "(string, unit) world"
    using backoff_step [of "Suc 0" w 0 "[]"] that by simp
  have run: "replies (snd (attempts ''u'' 5 0 limited_missing_late)) = [Response (ok ''late'')]"
    by (simp add: attempts.simps [of _ _ 0] attempts.simps [of _ _ "Suc 0"]
        loop_body_def try_block_def backoff_def [of 0] b requests_get_def time_sleep_def
        retry_after_seconds_def limited_missing_late_def scripted_def
        rate_limited_def not_found_def
        int_of_str_def int_space_def digits_def isdigit_def digit_value_def)
  from not_found_is_terminal [of "''u''" 5 0 limited_missing_late
      "fst (attempts ''u'' 5 0 limited_missing_late)"
      "snd (attempts ''u'' 5 0 limited_missing_late)" "[Response (rate_limited ''1'')]" not_found
      "[Response (ok ''late'')]"] run
  show ?thesis
    by (simp add: make_api_request_def limited_missing_late_def scripted_def not_found_def)
qed

subsection \<open>Backoff delays (claim C8)\<close>

text \<open>
  Claim C8, as the specification states it: the backoff slept before attempt \<open>n\<close> lies
  in \<open>[2^n, 2^n + 1)\<close> for every \<open>n \<ge> 1\<close>. The delay is the float sum of \<open>2^n\<close> and the
  jitter, and the sum is rounded: a jitter within rounding distance of 1 gives
  \<open>2^n + 1\<close> itself. With a 500 as first reply and the jitter \<open>1 - 2^-53\<close>, the greatest
  double below 1, the backoff slept before attempt 1 is 3 seconds.
\<close>

theorem backoff_delay_counterexample:
  "jitter late_draw = [1 - 1 / 2 ^ 53]
   \<and> make_api_request ''u'' 5 late_draw
       = (Inr (Some ''x''),
          \<lparr>replies = [], jitter = [],
           events = [Get ''u'', Sleep (2 ^ 1 + 1), Get ''u''],
           orcid_cache = []\<rparr>)"
proof -
  have f: "float_add 2 (1 - 1 / 2 ^ 53) = 3"
    by (simp add: float_add_def round_double_def ulp_def exponent_def bit_length.simps
        round_half_even_def Let_def)
  have b: "backoff (Suc 0) w = (Inr (), w\<lparr>jitter := [], events := events w @ [Sleep 3]\<rparr>)"
    if "jitter w = [1 - 1 / 2 ^ 53]" for w :: "(string, unit) world"
    using backoff_step [of "Suc 0" w "1 - 1 / 2 ^ 53" "[]"] that f by simp
  show ?thesis
    by (simp add: make_api_request_def attempts.simps [of _ _ 0] attempts.simps [of _ _ "Suc 0"]
        loop_body_def try_block_def b requests_get_def backoff_def [of 0]
        late_draw_def scripted_def server_error_def ok_def)
qed

text \<open>
  Claim C8, amended: the backoff slept before attempt \<open>n\<close> lies in the closed interval
  \<open>[2^n, 2^n + 1]\<close> for every \<open>n\<close> from 1 to 33, and attempt 0 goes out with no backoff.
  Take the loop at any attempt index \<open>n\<close> it runs (\<open>n < max_retries\<close>), with jitter values
  drawn from \<open>[0, 1)\<close> as \<open>random.uniform(0, 1)\<close> draws them. For \<open>n = 0\<close> the first thing
  the attempt does is its request. For \<open>n \<ge> 1\<close> the first thing it does is one sleep of
  a duration in \<open>[2^n, 2^n + 1]\<close>, and the request follows at once. The attempts from
  34 on are left out: their delay is one that \<open>time.sleep\<close> refuses, and from attempt 1024
  on the power \<open>2^n\<close> has no float.
\<close>

theorem backoff_delay_bounds:
  assumes "int n < max_retries" and "n < 34"
    and "\<forall>j\<in>set (jitter w). 0 \<le> j \<and> j < 1"
    and "attempts url max_retries n w = (res, w')"
  shows "if n = 0 then (\<exists>es. events w' = events w @ Get url # es)
         else (\<exists>d es. events w' = events w @ Sleep d # Get url # es
                 \<and> 2 ^ n \<le> d \<and> d \<le> 2 ^ n + 1)"
proof -
  from assms(2) have "n < 1024" by simp
  from backoff_bounds [OF assms(3) this] obtain w0 where
    b: "backoff n w = (Inr (), w0)" and
    w0: "if n = 0 then events w0 = events w
         else \<exists>d. events w0 = events w @ [Sleep d] \<and> 2 ^ n \<le> d \<and> d \<le> 2 ^ n + 1"
    by blast
  obtain f w1 where lb: "loop_body url max_retries n w = (f, w1)" by force
  from after_get [OF b lb] obtain es1 where w1: "events w1 = events w0 @ Get url # es1"
    by blast
  have "\<exists>es. events w' = events w1 @ es"
  proof (cases f)
    case (Return v)
    with lb assms show ?thesis by (simp add: attempts.simps)
  next
    case (Raise e)
    with lb assms show ?thesis by (simp add: attempts.simps)
  next
    case Continue
    with lb assms have "attempts url max_retries (Suc n) w1 = (res, w')"
      by (simp add: attempts.simps)
    then show ?thesis by (rule attempts_events)
  qed
  then obtain es where "events w' = events w0 @ Get url # (es1 @ es)" using w1 by auto
  with w0 show ?thesis by (cases "n = 0") auto
qed

theorem backoff_delay_bounds_witness:
  "\<exists>d es. events (snd (attempts ''u'' 5 2 one_ok)) = Sleep d # Get ''u'' # es
            \<and> 4 \<le> d \<and> d \<le> 5"
  using backoff_delay_bounds [of 2 5 one_ok "''u''"
      "fst (attempts ''u'' 5 2 one_ok)" "snd (attempts ''u'' 5 2 one_ok)"]
  by (simp add: one_ok_def scripted_def)

section \<open>Properties of \<open>get_institution_id\<close>\<close>

subsection \<open>Strings and the search on one page\<close>

lemma split_from_Nil: "split_from cur s = [] \<longleftrightarrow> cur = [] \<and> (\<forall>c\<in>set s. isspace c)"
  by (induction s arbitrary: cur) auto

lemma split_Nil: "split s = [] \<longleftrightarrow> (\<forall>c\<in>set s. isspace c)"
  by (simp add: split_def split_from_Nil)

lemma str_in_iff: "str_in sub s \<longleftrightarrow> (\<exists>pre post. s = pre @ sub @ post)"
proof (induction s)
  case Nil
  then show ?case by auto
next
  case (Cons c s)
  show ?case
  proof
    assume "str_in sub (c # s)"
    then consider "startswith (c # s) sub" | "str_in sub s" by auto
    then show "\<exists>pre post. c # s = pre @ sub @ post"
    proof cases
      case 1
      then have "c # s = [] @ sub @ drop (length sub) (c # s)"
        unfolding startswith_def by (metis append_Nil append_take_drop_id)
      then show ?thesis by blast
    next
      case 2
      with Cons obtain pre post where "s = pre @ sub @ post" by blast
      then have "c # s = (c # pre) @ sub @ post" by simp
      then show ?thesis by blast
    qed
  next
    assume "\<exists>pre post. c # s = pre @ sub @ post"
    then obtain pre post where e: "c # s = pre @ sub @ post" by blast
    show "str_in sub (c # s)"
    proof (cases pre)
      case Nil
      with e have "startswith (c # s) sub" by (simp add: startswith_def)
      then show ?thesis by simp
    next
      case (Cons p pre')
      with e have "s = pre' @ sub @ post" by simp
      with Cons.IH show ?thesis by auto
    qed
  qed
qed

text \<open>Whitespace can be encoded; and the parts of a string that can be encoded can be
  encoded.\<close>

lemma isspace_not_surrogate: "isspace c \<Longrightarrow> \<not> surrogate c"
  by (auto simp: isspace_def surrogate_def)






text \<open>A name with a surrogate code point cannot be printed.\<close>

lemma unprintable_name:
  "list_ex surrogate institution_name \<Longrightarrow>
     get_institution_id institution_name w = (Inl UnicodeEncodeError, w)"
  by (simp add: get_institution_id_def print_def)











subsection \<open>The order of the search terms and the choice on a page (claim C3)\<close>



subsection \<open>Names without a token (claim C10)\<close>

text \<open>
  Claim C10. For a name that is empty or all whitespace, \<open>institution_name.split()[0]\<close>
  raises \<open>IndexError\<close> while the list of search terms is built: \<open>get_institution_id\<close>
  raises, and no request has been made. The list of search terms of a name with a
  character that is not whitespace is built without an exception. Whitespace is that of
  \<open>str.split\<close>, over all of Unicode: the no-break space U+00A0 and the ideographic space
  U+3000 belong to it.
\<close>

theorem blank_institution_name:
  "((\<forall>c\<in>set institution_name. isspace c) \<longrightarrow>
      get_institution_id institution_name w = (Inl IndexError, w))
   \<and> ((\<exists>c\<in>set institution_name. \<not> isspace c) \<longrightarrow>
      (\<exists>token. search_terms institution_name
         = Inr [institution_name, strip (replace institution_name (str_of ''University'') []),
                token]))"
proof -
  have "get_institution_id institution_name w = (Inl IndexError, w)"
    if b: "\<forall>c\<in>set institution_name. isspace c"
  proof -
    from b have "\<not> list_ex surrogate institution_name"
      by (auto simp: list_ex_iff dest: isspace_not_surrogate)
    with b split_Nil [of institution_name] show ?thesis
      by (simp add: get_institution_id_def search_terms_def print_def)
  qed
  moreover have "\<exists>token. search_terms institution_name
         = Inr [institution_name, strip (replace institution_name (str_of ''University'') []),
                token]"
    if "\<exists>c\<in>set institution_name. \<not> isspace c"
    using that split_Nil [of institution_name]
    by (cases "split institution_name") (auto simp: search_terms_def)
  ultimately show ?thesis by blast
qed

theorem blank_institution_name_witness:
  "get_institution_id [0xA0, 0x20, 0x3000] resolver_script = (Inl IndexError, resolver_script)
   \<and> get_institution_id [] resolver_script = (Inl IndexError, resolver_script)
   \<and> (\<exists>token. search_terms ecole
         = Inr [ecole, strip (replace ecole (str_of ''University'') []), token])"
  using blank_institution_name [of "[0xA0, 0x20, 0x3000]" resolver_script]
    blank_institution_name [of "[]" resolver_script]
    blank_institution_name [of ecole resolver_script]
  by (simp add: isspace_def ecole_def)

section \<open>Properties of \<open>enrich_with_orcid\<close>\<close>

subsection \<open>The cache\<close>

lemma map_of_snoc_fresh:
  "map_of d k = None \<Longrightarrow> map_of (d @ [(k, v)]) k = Some v"
  by (induction d) auto

lemma map_le_snoc_fresh:
  "map_of d k = None \<Longrightarrow> map_le (map_of d) (map_of (d @ [(k, v)]))"
  by (auto simp: map_le_def map_add_def dom_def split: option.splits)

lemma enrich_cached:
  "map_of (orcid_cache w) orcid_id = Some result \<Longrightarrow> enrich_with_orcid orcid_id w = (result, w)"
  by (simp add: enrich_with_orcid_def)

lemma enrich_served:
  assumes "map_of (orcid_cache w) orcid_id = None" and "served w"
    and "enrich_with_orcid orcid_id w = (result, w1)"
  shows "map_of (orcid_cache w1) orcid_id = Some result"
  using assms
  by (auto simp: enrich_with_orcid_def served_def requests_get_def map_add_def
      split: list.splits outcome.splits option.splits sum.splits if_splits)

lemma enrich_failed:
  assumes "map_of (orcid_cache w) orcid_id = None" and "\<not> served w"
    and "enrich_with_orcid orcid_id w = (result, w1)"
  shows "result = [] \<and> orcid_cache w1 = orcid_cache w"
  using assms
  by (auto simp: enrich_with_orcid_def served_def requests_get_def
      split: list.splits outcome.splits option.splits sum.splits if_splits)

lemma enrich_uncached_requests:
  assumes "map_of (orcid_cache w) orcid_id = None"
  shows "events (snd (enrich_with_orcid orcid_id w)) = events w @ [Get (orcid_url orcid_id)]"
  using assms
  by (auto simp: enrich_with_orcid_def requests_get_def
      split: list.splits outcome.splits option.splits sum.splits if_splits)

text \<open>The cache only grows, and the executor does not touch it.\<close>

lemma enrich_cache_grows:
  "enrich_with_orcid orcid_id w = (result, w1) \<Longrightarrow>
     map_le (map_of (orcid_cache w)) (map_of (orcid_cache w1))"
  by (auto simp: enrich_with_orcid_def requests_get_def map_le_snoc_fresh
      split: list.splits outcome.splits option.splits sum.splits if_splits)

subsection \<open>Memoisation (claim C6)\<close>

text \<open>
  Claim C6. Take the first call for an identifier (it is not in the cache yet).
  \<^item> If the call succeeds, then in every later state of the process (the cache only
    grows, so it still holds what this call left) a call with the same identifier
    returns the identical result and leaves the state as it was: no request is made.
  \<^item> If the call fails, it returns the empty dict and the cache is what it was before;
    a later call with the same identifier, the cache being still the same, makes one
    request to the registry.
\<close>

theorem orcid_memoised:
  assumes "map_of (orcid_cache w) orcid_id = None"
    and "enrich_with_orcid orcid_id w = (result, w1)"
  shows "(served w \<longrightarrow>
            (\<forall>w2 :: state. map_le (map_of (orcid_cache w1)) (map_of (orcid_cache w2)) \<longrightarrow>
                  enrich_with_orcid orcid_id w2 = (result, w2)))
       \<and> (\<not> served w \<longrightarrow>
            result = [] \<and> orcid_cache w1 = orcid_cache w \<and>
            (\<forall>w2 :: state. orcid_cache w2 = orcid_cache w1 \<longrightarrow>
                  events (snd (enrich_with_orcid orcid_id w2))
                    = events w2 @ [Get (orcid_url orcid_id)]))"
proof (intro conjI impI allI)
  fix w2 :: state
  assume "served w" and le: "map_le (map_of (orcid_cache w1)) (map_of (orcid_cache w2))"
  from enrich_served [OF assms(1) this(1) assms(2)]
  have "map_of (orcid_cache w1) orcid_id = Some result" .
  with le have "map_of (orcid_cache w2) orcid_id = Some result"
    by (auto simp: map_le_def dom_def)
  then show "enrich_with_orcid orcid_id w2 = (result, w2)" by (rule enrich_cached)
next
  assume "\<not> served w"
  from enrich_failed [OF assms(1) this assms(2)]
  show "result = []" and "orcid_cache w1 = orcid_cache w" by simp_all
next
  fix w2 :: state
  assume "\<not> served w" and c: "orcid_cache w2 = orcid_cache w1"
  from enrich_failed [OF assms(1) this(1) assms(2)] c assms(1)
  have "map_of (orcid_cache w2) orcid_id = None" by simp
  then show "events (snd (enrich_with_orcid orcid_id w2)) = events w2 @ [Get (orcid_url orcid_id)]"
    by (rule enrich_uncached_requests)
qed

lemma ada_result:
  "orcid_result ada_record = Inr [(''Email'', Some ''ada@example.org''), (''Department'', Some ''Physics'')]"
  by (simp add: orcid_result_def ada_record_def orcid_record_def nested_def public_email_def
      first_department_def get_def truthy_def)

theorem orcid_memoised_witness:
  "enrich_with_orcid ''0000-0001'' (snd (enrich_with_orcid ''0000-0001'' registry_up))
     = ([(''Email'', Some ''ada@example.org''), (''Department'', Some ''Physics'')],
        snd (enrich_with_orcid ''0000-0001'' registry_up))
   \<and> fst (enrich_with_orcid ''0000-0001'' registry_down) = []
   \<and> events (snd (enrich_with_orcid ''0000-0001''
               (snd (enrich_with_orcid ''0000-0001'' registry_down))))
       = [Get (orcid_url ''0000-0001''), Get (orcid_url ''0000-0001'')]"
proof -
  have up: "served registry_up" "map_of (orcid_cache registry_up) ''0000-0001'' = None"
    by (simp_all add: served_def registry_up_def scripted_def ok_def ada_result)
  have r: "fst (enrich_with_orcid ''0000-0001'' registry_up)
             = [(''Email'', Some ''ada@example.org''), (''Department'', Some ''Physics'')]"
    by (simp add: enrich_with_orcid_def registry_up_def scripted_def ok_def requests_get_def
        ada_result)
  have down: "\<not> served registry_down" "map_of (orcid_cache registry_down) ''0000-0001'' = None"
    by (simp_all add: served_def registry_down_def scripted_def server_error_def)
  have e: "events (snd (enrich_with_orcid ''0000-0001'' registry_down))
             = [Get (orcid_url ''0000-0001'')]"
    using enrich_uncached_requests [OF down(2)] by (simp add: registry_down_def scripted_def)
  from orcid_memoised [OF up(2) surjective_pairing] up(1) r
  have "enrich_with_orcid ''0000-0001'' (snd (enrich_with_orcid ''0000-0001'' registry_up))
     = ([(''Email'', Some ''ada@example.org''), (''Department'', Some ''Physics'')],
        snd (enrich_with_orcid ''0000-0001'' registry_up))"
    by (simp add: map_le_refl)
  moreover from orcid_memoised [OF down(2) surjective_pairing] down(1) e
  have "fst (enrich_with_orcid ''0000-0001'' registry_down) = []"
    and "events (snd (enrich_with_orcid ''0000-0001''
               (snd (enrich_with_orcid ''0000-0001'' registry_down))))
       = [Get (orcid_url ''0000-0001''), Get (orcid_url ''0000-0001'')]"
    by simp_all
  ultimately show ?thesis by simp
qed

section \<open>Properties of \<open>find_authors_by_works\<close>\<close>

subsection \<open>The executor on a script whose next reply is a 200 or a 404\<close>

lemma executor_200:
  "status_code r = 200 \<Longrightarrow> json r \<noteq> None \<Longrightarrow>
     make_api_request url 5 \<lparr>replies = Response r # rest, jitter = js, events = es, orcid_cache = c\<rparr>
       = (Inr (json r), \<lparr>replies = rest, jitter = js, events = es @ [Get url], orcid_cache = c\<rparr>)"
  by (auto simp: make_api_request_def attempts.simps [of _ _ 0] loop_body_def try_block_def
      backoff_def requests_get_def)

lemma executor_404:
  "status_code r = 404 \<Longrightarrow>
     make_api_request url 5 \<lparr>replies = Response r # rest, jitter = js, events = es, orcid_cache = c\<rparr>
       = (Inr None, \<lparr>replies = rest, jitter = js, events = es @ [Get url], orcid_cache = c\<rparr>)"
  by (auto simp: make_api_request_def attempts.simps [of _ _ 0] loop_body_def try_block_def
      backoff_def requests_get_def)

subsection \<open>The keys of \<open>authors_dict\<close>\<close>

lemma first_seen_from_append:
  "first_seen_from seen (xs @ ys)
     = first_seen_from seen xs @ first_seen_from (seen @ first_seen_from seen xs) ys"
  by (induction xs arbitrary: seen) auto

lemma first_seen_from_fresh:
  "set (first_seen_from seen xs) \<inter> set seen = {} \<and> distinct (first_seen_from seen xs)"
proof (induction xs arbitrary: seen)
  case Nil
  then show ?case by simp
next
  case (Cons x xs)
  show ?case
  proof (cases "x \<in> set seen")
    case True
    with Cons [of seen] show ?thesis by simp
  next
    case False
    with Cons [of "seen @ [x]"] show ?thesis by auto
  qed
qed

lemma distinct_first_seen: "distinct (first_seen xs)"
  by (simp add: first_seen_def first_seen_from_fresh)

lemma with_details_id: "OpenAlex_ID (with_details detailed_data r) = OpenAlex_ID r"
  by (simp add: with_details_def Let_def split: option.splits)

lemma detail_lookups_ids:
  "detail_lookups d w = (Inr A, w') \<Longrightarrow> map OpenAlex_ID A = map (\<lambda>p. OpenAlex_ID (snd p)) d"
proof (induction d arbitrary: w A w')
  case Nil
  then show ?case by simp
next
  case (Cons p d)
  obtain k r where p: "p = (k, r)" by (cases p)
  from Cons.prems p obtain w1 w2 dd A' where
    "detail_lookups d w2 = (Inr A', w')" and "A = with_details dd r # A'"
    by (auto split: prod.splits sum.splits)
  with Cons.IH [of w2 A' w'] p show ?case by (simp add: with_details_id)
qed

lemma new_author_iff:
  "new_author a d = Some (au, i) \<longleftrightarrow>
     get_or (author a) empty_entity = Some au \<and> authorship_id a = Some i \<and> i \<notin> set (map fst d)"
  by (auto simp: new_author_def authorship_id_def split: option.splits)

lemma new_author_None:
  "new_author a d = None \<longleftrightarrow>
     (case authorship_id a of None \<Rightarrow> True | Some i \<Rightarrow> i \<in> set (map fst d))"
  by (auto simp: new_author_def authorship_id_def split: option.splits)

lemma new_record_id:
  "new_record kw iid uni work a au i w = (Inr r, w1) \<Longrightarrow> OpenAlex_ID r = Some i"
  by (auto simp: new_record_def split: sum.splits prod.splits)

lemma scan_authorships_keys:
  "scan_authorships kw iid uni work as d w = (Inr d', w') \<Longrightarrow> keyed d \<Longrightarrow>
     keyed d' \<and>
     map fst d' = map fst d @ first_seen_from (map fst d) (List.map_filter authorship_id as)"
proof (induction as arbitrary: d w)
  case Nil
  then show ?case by (simp add: List.map_filter_simps)
next
  case (Cons a as)
  show ?case
  proof (cases "new_author a d")
    case None
    with Cons.prems have "scan_authorships kw iid uni work as d w = (Inr d', w')" by simp
    from Cons.IH [OF this Cons.prems(2)] None show ?thesis
      by (auto simp: new_author_None List.map_filter_simps split: option.splits)
  next
    case (Some p)
    obtain au i where p: "p = (au, i)" by (cases p)
    with Some have na: "new_author a d = Some (au, i)" by simp
    from Cons.prems(1) na obtain r w1 where
      nr: "new_record kw iid uni work a au i w = (Inr r, w1)" and
      rest: "scan_authorships kw iid uni work as (d @ [(i, r)]) w1 = (Inr d', w')"
      by (auto split: prod.splits sum.splits)
    from new_record_id [OF nr] Cons.prems(2) have "keyed (d @ [(i, r)])"
      by (simp add: keyed_def)
    from Cons.IH [OF rest this] na show ?thesis
      by (auto simp: new_author_iff List.map_filter_simps)
  qed
qed

lemma scan_works_keys:
  "scan_works kw iid uni page d w = (Inr d', w') \<Longrightarrow> keyed d \<Longrightarrow>
     keyed d' \<and> map fst d' = map fst d @ first_seen_from (map fst d) (encountered page)"
proof (induction page arbitrary: d w)
  case Nil
  then show ?case by (simp add: encountered_def)
next
  case (Cons work page)
  from Cons.prems(1) obtain as d1 w1 where
    as: "get_or (authorships work) [] = Some as" and
    sa: "scan_authorships kw iid uni work as d w = (Inr d1, w1)" and
    rest: "scan_works kw iid uni page d1 w1 = (Inr d', w')"
    by (auto split: option.splits prod.splits sum.splits)
  from scan_authorships_keys [OF sa Cons.prems(2)] have
    k1: "keyed d1" and
    m1: "map fst d1 = map fst d @ first_seen_from (map fst d) (List.map_filter authorship_id as)"
    by simp_all
  from Cons.IH [OF rest k1] have
    "keyed d'" and "map fst d' = map fst d1 @ first_seen_from (map fst d1) (encountered page)"
    by simp_all
  with m1 as show ?case
    by (simp add: encountered_def first_seen_from_append)
qed

lemma keyed_ids: "keyed d \<Longrightarrow> map (\<lambda>p. OpenAlex_ID (snd p)) d = map Some (map fst d)"
  by (induction d) (auto simp: keyed_def)

lemma by_works_ids:
  assumes "find_authors_by_works keyword institution_id university_name w = (Inr authors, w')"
    and "make_api_request (works_url keyword institution_id) 5 w = (r, w1)"
  shows "(page_of r = None \<longrightarrow> authors = [])
       \<and> (\<forall>page. page_of r = Some page \<longrightarrow>
             map OpenAlex_ID authors = map Some (take 20 (first_seen (encountered page))))"
proof (cases "page_of r")
  case None
  with assms have "authors = []"
    by (auto simp: find_authors_by_works_def page_of_def split: sum.splits option.splits)
  with None show ?thesis by simp
next
  case (Some page)
  with assms obtain d w2 where
    sw: "scan_works keyword institution_id university_name page [] w1 = (Inr d, w2)" and
    dl: "detail_lookups (take 20 d) w2 = (Inr authors, w')"
    by (auto simp: find_authors_by_works_def page_of_def split: sum.splits option.splits prod.splits)
  from scan_works_keys [OF sw] have k: "keyed d" and m: "map fst d = first_seen (encountered page)"
    by (simp_all add: keyed_def first_seen_def)
  from k have "keyed (take 20 d)" by (simp add: keyed_def list_all_iff) (meson in_set_takeD)
  from detail_lookups_ids [OF dl] keyed_ids [OF this]
  have "map OpenAlex_ID authors = map Some (map fst (take 20 d))" by simp
  moreover have "map fst (take 20 d) = take 20 (first_seen (encountered page))"
    unfolding m [symmetric] by (rule take_map [symmetric])
  ultimately
  have ids: "map OpenAlex_ID authors = map Some (take 20 (first_seen (encountered page)))"
    by simp
  with Some show ?thesis by simp
qed

lemma by_works_distinct:
  assumes "find_authors_by_works keyword institution_id university_name w = (Inr authors, w')"
  shows "distinct (map OpenAlex_ID authors) \<and> length authors \<le> 20"
proof -
  obtain r w1 where q: "make_api_request (works_url keyword institution_id) 5 w = (r, w1)"
    by force
  note ids = by_works_ids [OF assms q]
  show ?thesis
  proof (cases "page_of r")
    case None
    with ids show ?thesis by simp
  next
    case (Some page)
    with ids have e: "map OpenAlex_ID authors = map Some (take 20 (first_seen (encountered page)))"
      by simp
    have "length (map OpenAlex_ID authors) \<le> 20" unfolding e by simp
    moreover have "distinct (map OpenAlex_ID authors)"
      unfolding e by (simp add: distinct_map distinct_first_seen distinct_take)
    ultimately show ?thesis by simp
  qed
qed

subsection \<open>At most 20 records (claim C9)\<close>

text \<open>
  Claim C9. Whenever \<open>find_authors_by_works\<close> returns, it returns at most 20 records.
  When the works search yields a page, the ids of the records returned are the first 20
  of the unique author ids of the page, in the order in which they are first met; so
  when the page has more than 20 unique author ids exactly 20 records are returned,
  and no id beyond the first 20 is the id of a record returned.
\<close>

theorem work_centric_cap:
  assumes "find_authors_by_works keyword institution_id university_name w = (Inr authors, w')"
    and "make_api_request (works_url keyword institution_id) 5 w = (r, w1)"
  shows "length authors \<le> 20
       \<and> (\<forall>page. page_of r = Some page \<longrightarrow>
             map OpenAlex_ID authors = map Some (take 20 (first_seen (encountered page)))
           \<and> (20 < length (first_seen (encountered page)) \<longrightarrow>
                length authors = 20
              \<and> (\<forall>i \<in> set (drop 20 (first_seen (encountered page))).
                    Some i \<notin> set (map OpenAlex_ID authors))))"
proof -
  have "map OpenAlex_ID authors = map Some (take 20 xs) \<Longrightarrow> distinct xs \<Longrightarrow> 20 < length xs \<Longrightarrow>
          length authors = 20 \<and> (\<forall>i \<in> set (drop 20 xs). Some i \<notin> set (map OpenAlex_ID authors))"
    for xs :: "string list"
  proof -
    assume e: "map OpenAlex_ID authors = map Some (take 20 xs)" and d: "distinct xs"
      and l: "20 < length xs"
    have "length (map OpenAlex_ID authors) = 20" unfolding e using l by simp
    then have "length authors = 20" by simp
    moreover from d have "distinct (take 20 xs @ drop 20 xs)" by simp
    then have "set (take 20 xs) \<inter> set (drop 20 xs) = {}" by (simp only: distinct_append)
    then have "\<forall>i \<in> set (drop 20 xs). Some i \<notin> set (map OpenAlex_ID authors)"
      unfolding e by auto
    ultimately show ?thesis by simp
  qed
  with by_works_ids [OF assms] by_works_distinct [OF assms(1)] distinct_first_seen
  show ?thesis by blast
qed

theorem work_centric_cap_witness:
  "\<exists>authors w'. find_authors_by_works ''cooling'' ''I9'' ex_lab crowded_script = (Inr authors, w')
      \<and> length authors = 20
      \<and> map OpenAlex_ID authors = map Some (take 20 crowd_ids)
      \<and> Some ''A21'' \<notin> set (map OpenAlex_ID authors)"
proof -
  have q: "fst (make_api_request (works_url ''cooling'' ''I9'') 5 crowded_script)
             = Inr (Some (results_page [crowded_work]))"
    by (simp add: crowded_script_def scripted_def ok_def executor_200)
  have p: "page_of (Inr (Some (results_page [crowded_work]))) = Some [crowded_work]"
    by (simp add: page_of_def results_of_def results_page_def get_def)
  have "\<not> isl (fst (find_authors_by_works ''cooling'' ''I9'' ex_lab crowded_script))"
    by (simp add: find_authors_by_works_def crowded_script_def scripted_def ok_def executor_200
        results_of_def results_page_def get_def get_or_def crowded_work_def crowd_ids_def
        work_item_def named_item_def by_author_def author_ref_def empty_entity_def
        new_author_def new_record_def author_institution_of_def paper_url_of_def truthy_def
        enriched_for_def dict_get_def not_found_def executor_404 time_sleep_def)
  then obtain authors where
    "fst (find_authors_by_works ''cooling'' ''I9'' ex_lab crowded_script) = Inr authors"
    by (cases "fst (find_authors_by_works ''cooling'' ''I9'' ex_lab crowded_script)") auto
  then obtain w' where
    run: "find_authors_by_works ''cooling'' ''I9'' ex_lab crowded_script = (Inr authors, w')"
    by (metis prod.collapse)
  have e: "first_seen (encountered [crowded_work]) = crowd_ids"
    by (simp add: first_seen_def encountered_def crowded_work_def crowd_ids_def work_item_def
        named_item_def by_author_def author_ref_def empty_entity_def authorship_id_def get_def
        get_or_def List.map_filter_simps)
  have l: "20 < length crowd_ids" "''A21'' \<in> set (drop 20 crowd_ids)"
    by (simp_all add: crowd_ids_def)
  have pg: "page_of (fst (make_api_request (works_url ''cooling'' ''I9'') 5 crowded_script))
              = Some [crowded_work]"
    unfolding q by (rule p)
  from work_centric_cap [OF run surjective_pairing] pg
  have "map OpenAlex_ID authors = map Some (take 20 (first_seen (encountered [crowded_work])))
        \<and> (20 < length (first_seen (encountered [crowded_work])) \<longrightarrow>
             length authors = 20
           \<and> (\<forall>i \<in> set (drop 20 (first_seen (encountered [crowded_work]))).
                 Some i \<notin> set (map OpenAlex_ID authors)))"
    by blast
  then have ids: "map OpenAlex_ID authors = map Some (take 20 crowd_ids)"
    and cap: "20 < length crowd_ids \<longrightarrow>
             length authors = 20
           \<and> (\<forall>i \<in> set (drop 20 crowd_ids). Some i \<notin> set (map OpenAlex_ID authors))"
    unfolding e by blast+
  from cap l(1) have len: "length authors = 20"
    and rest: "\<forall>i \<in> set (drop 20 crowd_ids). Some i \<notin> set (map OpenAlex_ID authors)"
    by blast+
  from rest l(2) have n21: "Some ''A21'' \<notin> set (map OpenAlex_ID authors)" by (rule bspec)
  from run len ids n21 show ?thesis
    by (intro exI [of _ authors] exI [of _ w'] conjI)
qed

section \<open>Properties of \<open>find_authors\<close>\<close>

subsection \<open>What the direct search does to the environment, and counting\<close>

lemma executor_first_event:
  assumes "make_api_request url 5 w = (r, w')"
  shows "\<exists>es. events w' = events w @ Get url # es"
proof -
  have b: "backoff 0 w = (Inr (), w)" by (simp add: backoff_def)
  obtain f w1 where lb: "loop_body url 5 0 w = (f, w1)" by force
  from after_get [OF b lb] obtain es1 where w1: "events w1 = events w @ Get url # es1" by blast
  have "\<exists>es. events w' = events w1 @ es"
  proof (cases f)
    case (Return v)
    with lb assms show ?thesis by (simp add: make_api_request_def attempts.simps [of _ _ 0])
  next
    case (Raise e)
    with lb assms show ?thesis by (simp add: make_api_request_def attempts.simps [of _ _ 0])
  next
    case Continue
    with lb assms have "attempts url 5 (Suc 0) w1 = (r, w')"
      by (simp add: make_api_request_def attempts.simps [of _ _ 0])
    then show ?thesis by (rule attempts_events)
  qed
  with w1 show ?thesis by auto
qed

lemma enrich_events:
  "enrich_with_orcid i w = (d, w') \<Longrightarrow> \<exists>es. events w' = events w @ es"
  by (auto simp: enrich_with_orcid_def requests_get_def
      split: list.splits outcome.splits option.splits sum.splits if_splits)

lemma enriched_for_events:
  "enriched_for oi w = (d, w') \<Longrightarrow> \<exists>es. events w' = events w @ es"
  by (auto simp: enriched_for_def split: option.splits if_splits dest: enrich_events)

lemma direct_record_events:
  assumes "direct_record keyword university_name au w = (r, w')"
  shows "\<exists>es. events w' = events w @ es"
proof -
  obtain d w1 where e: "enriched_for (get (orcid au)) w = (d, w1)" by force
  with assms have "w' = w1"
    by (auto simp: direct_record_def Let_def split: sum.splits if_splits field.splits)
  with enriched_for_events [OF e] show ?thesis by simp
qed

lemma direct_records_events:
  "direct_records keyword university_name page w = (r, w') \<Longrightarrow> \<exists>es. events w' = events w @ es"
proof (induction page arbitrary: w r w')
  case Nil
  then show ?case by simp
next
  case (Cons au page)
  obtain r1 w1 where d: "direct_record keyword university_name au w = (r1, w1)" by force
  from direct_record_events [OF d] obtain es1 where w1: "events w1 = events w @ es1" by blast
  show ?case
  proof (cases r1)
    case (Inl e)
    with d Cons.prems w1 show ?thesis by auto
  next
    case (Inr rec)
    obtain r2 w2 where ds: "direct_records keyword university_name page w1 = (r2, w2)" by force
    from Cons.IH [OF ds] obtain es2 where "events w2 = events w1 @ es2" by blast
    moreover from Inr d ds Cons.prems have "w' = w2" by (auto split: sum.splits)
    ultimately show ?thesis using w1 by simp
  qed
qed

text \<open>The direct search is seen from outside: its first event is its request.\<close>

lemma find_authors_direct_requests:
  assumes "find_authors_direct keyword institution_id university_name w = (r, w')"
  shows "\<exists>es. events w' = events w @ Get (authors_url keyword institution_id) # es"
proof -
  obtain q w1 where m: "make_api_request (authors_url keyword institution_id) 5 w = (q, w1)"
    by force
  from executor_first_event [OF m] obtain es1 where
    w1: "events w1 = events w @ Get (authors_url keyword institution_id) # es1" by blast
  show ?thesis
  proof (cases "page_of q")
    case None
    with m assms have "w' = w1"
      by (auto simp: find_authors_direct_def page_of_def split: sum.splits option.splits)
    with w1 show ?thesis by simp
  next
    case (Some page)
    with m assms have "direct_records keyword university_name page w1 = (r, w')"
      by (auto simp: find_authors_direct_def page_of_def split: sum.splits option.splits)
    from direct_records_events [OF this] w1 show ?thesis by auto
  qed
qed

lemma merged_count:
  assumes "distinct (map f A)" and "distinct (map f D)"
  shows "length (A @ filter (\<lambda>a. f a \<notin> set (map f A)) D) = card (set (map f A) \<union> set (map f D))"
proof -
  let ?N = "filter (\<lambda>a. f a \<notin> set (map f A)) D"
  have u: "set (map f A) \<union> set (map f D) = set (map f A) \<union> set (map f ?N)" by auto
  have i: "set (map f A) \<inter> set (map f ?N) = {}"
  proof (rule ccontr)
    assume "set (map f A) \<inter> set (map f ?N) \<noteq> {}"
    then obtain y where y: "y \<in> set (map f A)" "y \<in> set (map f ?N)" by auto
    then obtain x where "x \<in> set ?N" "y = f x" by auto
    then have "y \<notin> set (map f A)" by simp
    with y show False by simp
  qed
  have c: "card (set (map f A) \<union> set (map f ?N)) = card (set (map f A)) + card (set (map f ?N))"
    using i by (intro card_Un_disjoint) simp_all
  from assms(2) have dN: "distinct (map f ?N)" by (rule distinct_map_filter)
  have cA: "card (set (map f A)) = length A" using distinct_card [OF assms(1)] by simp
  have cN: "card (set (map f ?N)) = length ?N" using distinct_card [OF dN] by simp
  have "length (A @ ?N) = length A + length ?N" by simp
  also have "\<dots> = card (set (map f A)) + card (set (map f ?N))" by (simp only: cA cN)
  also have "\<dots> = card (set (map f A) \<union> set (map f ?N))" by (simp only: c)
  also have "\<dots> = card (set (map f A) \<union> set (map f D))" by (simp only: u)
  finally show ?thesis .
qed

subsection \<open>The merge of the two strategies (claim C2)\<close>

text \<open>
  Claim C2, as the specification states it, ends: the direct-search records whose id
  is not among the work-centric results are appended, so the final count equals the
  size of the union of the two strategies' sets of author ids. The code does not
  make it so: \<open>existing_ids\<close> is computed once, from the work-centric records, and a
  direct search that lists an id twice has both records appended. With a works search
  that finds nothing and a direct search that lists the author A1 twice, the result
  has two records while the union of the id sets has one element.
\<close>

theorem direct_duplicates_counterexample:
  "fst (find_authors_by_works ''cooling'' ''I9'' ex_lab direct_script) = Inr []
   \<and> fst (find_authors_direct ''cooling'' ''I9'' ex_lab
            (snd (find_authors_by_works ''cooling'' ''I9'' ex_lab direct_script)))
       = Inr [ann, ann]
   \<and> fst (find_authors ''cooling'' ''I9'' ex_lab direct_script) = Inr [ann, ann]
   \<and> length [ann, ann]
       \<noteq> card (set (map OpenAlex_ID ([] :: author_record list)) \<union> set (map OpenAlex_ID [ann, ann]))"
  by (simp add: find_authors_def find_authors_by_works_def find_authors_direct_def
      direct_script_def scripted_def ok_def not_found_def executor_200 executor_404
      results_of_def results_page_def get_def get_or_def twice_listed_def named_item_def
      direct_record_def enriched_for_def dict_get_def truthy_def ann_def)

text \<open>
  Claim C2, amended. The work-centric strategy runs first. When it yields five
  authors or more, its result is the result and the state is the one it left: the
  direct search is not run. When it yields fewer than five, the direct search runs (its
  request is the next event) and exactly the direct-search records whose
  \<open>OpenAlex_ID\<close> is not that of a work-centric record are appended, in their order,
  after all work-centric records; the final count then equals the size of the union of
  the two sets of author ids provided the direct search lists no id twice.
\<close>

theorem merge_policy:
  assumes "find_authors_by_works keyword institution_id university_name w = (Inr authors, w1)"
  shows "(5 \<le> length authors \<longrightarrow>
            find_authors keyword institution_id university_name w = (Inr authors, w1))
       \<and> (length authors < 5 \<longrightarrow>
            (\<forall>direct_authors w2.
               find_authors_direct keyword institution_id university_name w1
                 = (Inr direct_authors, w2) \<longrightarrow>
               find_authors keyword institution_id university_name w
                 = (Inr (authors @ filter (\<lambda>a. OpenAlex_ID a \<notin> set (map OpenAlex_ID authors))
                                     direct_authors), w2)
               \<and> (\<exists>es. events w2 = events w1 @ Get (authors_url keyword institution_id) # es)
               \<and> (distinct (map OpenAlex_ID direct_authors) \<longrightarrow>
                    length (authors @ filter (\<lambda>a. OpenAlex_ID a \<notin> set (map OpenAlex_ID authors))
                                        direct_authors)
                      = card (set (map OpenAlex_ID authors)
                                \<union> set (map OpenAlex_ID direct_authors)))))"
proof (intro conjI impI allI)
  assume "5 \<le> length authors"
  with assms show "find_authors keyword institution_id university_name w = (Inr authors, w1)"
    by (simp add: find_authors_def)
next
  fix direct_authors w2
  assume "length authors < 5"
    and "find_authors_direct keyword institution_id university_name w1 = (Inr direct_authors, w2)"
  with assms show "find_authors keyword institution_id university_name w
                 = (Inr (authors @ filter (\<lambda>a. OpenAlex_ID a \<notin> set (map OpenAlex_ID authors))
                                     direct_authors), w2)"
    by (simp add: find_authors_def)
next
  fix direct_authors w2
  assume "find_authors_direct keyword institution_id university_name w1 = (Inr direct_authors, w2)"
  then show "\<exists>es. events w2 = events w1 @ Get (authors_url keyword institution_id) # es"
    by (rule find_authors_direct_requests)
next
  fix direct_authors :: "author_record list"
  assume "distinct (map OpenAlex_ID direct_authors)"
  with by_works_distinct [OF assms]
  show "length (authors @ filter (\<lambda>a. OpenAlex_ID a \<notin> set (map OpenAlex_ID authors))
                                        direct_authors)
          = card (set (map OpenAlex_ID authors) \<union> set (map OpenAlex_ID direct_authors))"
    by (intro merged_count) simp_all
qed

theorem merge_policy_witness:
  "find_authors ''cooling'' ''I9'' ex_lab once_listed_script
     = (Inr [ann],
        \<lparr>replies = [], jitter = [],
         events = [Get (works_url ''cooling'' ''I9''), Get (authors_url ''cooling'' ''I9'')],
         orcid_cache = []\<rparr>)
   \<and> length [ann] = card (set (map OpenAlex_ID ([] :: author_record list))
                             \<union> set (map OpenAlex_ID [ann]))"
proof -
  let ?w1 = "\<lparr>replies = [Response (ok (results_page [named_item ''A1'' (str_of ''Ann'')]))],
              jitter = [], events = [Get (works_url ''cooling'' ''I9'')],
              orcid_cache = []\<rparr> :: state"
  let ?w2 = "\<lparr>replies = [], jitter = [],
              events = [Get (works_url ''cooling'' ''I9''), Get (authors_url ''cooling'' ''I9'')],
              orcid_cache = []\<rparr> :: state"
  have a: "find_authors_by_works ''cooling'' ''I9'' ex_lab once_listed_script = (Inr [], ?w1)"
    by (simp add: find_authors_by_works_def once_listed_script_def scripted_def not_found_def
        executor_404 results_of_def)
  have d: "find_authors_direct ''cooling'' ''I9'' ex_lab ?w1 = (Inr [ann], ?w2)"
    by (simp add: find_authors_direct_def ok_def executor_200
        results_of_def results_page_def get_def get_or_def named_item_def
        direct_record_def enriched_for_def dict_get_def truthy_def ann_def)
  from merge_policy [OF a] d show ?thesis by simp
qed

section \<open>Properties of \<open>find_researchers_with_api\<close>\<close>

subsection \<open>Dropping duplicates\<close>



lemma drop_duplicates_Nil: "drop_duplicates df = [] \<longleftrightarrow> df = []"
  by (cases df) (simp_all add: drop_duplicates_def)




subsection \<open>The result of a run (claim C4)\<close>



end
